theory Spec2Isabelle
  imports Main "HOL-Library.Sublist"
begin

section \<open>Python values and exceptions\<close>

text \<open>
  The builders of \<^verbatim>\<open>src/main.py\<close> work on what \<^verbatim>\<open>json.loads\<close> / \<^verbatim>\<open>response.json()\<close>
  return: \<^verbatim>\<open>None\<close>, booleans, numbers, strings, lists and dictionaries with string keys.
  A dictionary is an association list in insertion order; \<open>map_of\<close> reads it. A float is
  kept as mantissa and exponent: the code only passes floats on and tests their truth value.
\<close>

datatype py =
    PNone
  | PBool bool
  | PInt int
  | PFloat int int
  | PStr string
  | PList "py list"
  | PDict "(string \<times> py) list"

text \<open>
  The exceptions the code can meet. \<open>ValueError\<close> and \<open>JSONDecodeError\<close>, which is a
  subclass of it in Python, carry their message, which \<^verbatim>\<open>populate_collection_from_json\<close>
  prints.
\<close>

datatype error =
    AttributeError
  | TypeError
  | KeyError
  | ValueError string
  | JSONDecodeError string
  | ConnectionError

text \<open>
  \<^verbatim>\<open>except ValueError as e\<close>: the clause catches \<open>ValueError\<close> and its subclasses; the
  result is \<^verbatim>\<open>str(e)\<close> of a caught exception.
\<close>

fun except_ValueError :: "error \<Rightarrow> string option" where
  "except_ValueError (ValueError e) = Some e"
| "except_ValueError (JSONDecodeError e) = Some e"
| "except_ValueError _ = None"

definition ebind :: "error + 'a \<Rightarrow> ('a \<Rightarrow> error + 'b) \<Rightarrow> error + 'b" where
  "ebind m f = (case m of Inl e \<Rightarrow> Inl e | Inr x \<Rightarrow> f x)"

text \<open>\<^verbatim>\<open>node.get(key, default)\<close>: only a dictionary has the method.\<close>

definition dict_get :: "(string \<times> py) list \<Rightarrow> string \<Rightarrow> py \<Rightarrow> py" where
  "dict_get kvs k d = (case map_of kvs k of None \<Rightarrow> d | Some v \<Rightarrow> v)"

fun py_get :: "py \<Rightarrow> string \<Rightarrow> py \<Rightarrow> error + py" where
  "py_get (PDict kvs) k d = Inr (dict_get kvs k d)"
| "py_get _ k d = Inl AttributeError"

text \<open>Truth value of a Python object, as \<^verbatim>\<open>if x\<close> tests it.\<close>

fun truthy :: "py \<Rightarrow> bool" where
  "truthy PNone = False"
| "truthy (PBool b) = b"
| "truthy (PInt n) = (n \<noteq> 0)"
| "truthy (PFloat m e) = (m \<noteq> 0)"
| "truthy (PStr s) = (s \<noteq> [])"
| "truthy (PList xs) = (xs \<noteq> [])"
| "truthy (PDict kvs) = (kvs \<noteq> [])"

text \<open>\<^verbatim>\<open>a or b\<close> returns \<open>a\<close> when it is true and \<open>b\<close> otherwise.\<close>

definition py_or :: "py \<Rightarrow> py \<Rightarrow> py" where
  "py_or a b = (if truthy a then a else b)"

text \<open>
  \<^verbatim>\<open>for x in node\<close>: a list gives its elements, a dictionary its keys, a string its
  characters; \<^verbatim>\<open>None\<close>, booleans and numbers are not iterable.
\<close>

fun py_iter :: "py \<Rightarrow> error + py list" where
  "py_iter (PList xs) = Inr xs"
| "py_iter (PDict kvs) = Inr (map (\<lambda>kv. PStr (fst kv)) kvs)"
| "py_iter (PStr s) = Inr (map (\<lambda>c. PStr [c]) s)"
| "py_iter _ = Inl TypeError"

text \<open>\<^verbatim>\<open>s.upper()\<close> on ASCII letters; only a string has the method.\<close>

definition upper_char :: "char \<Rightarrow> char" where
  "upper_char c =
     (let n = (of_char c :: nat) in if 97 \<le> n \<and> n \<le> 122 then char_of (n - 32) else c)"

fun py_upper :: "py \<Rightarrow> error + py" where
  "py_upper (PStr s) = Inr (PStr (map upper_char s))"
| "py_upper _ = Inl AttributeError"

text \<open>
  \<^verbatim>\<open>s.split(sep)\<close> with a one-character separator: empty segments are kept, nothing is
  trimmed, and the empty string gives one empty segment. \<^verbatim>\<open>sep.join(xs)\<close> is its inverse.
\<close>

fun str_split :: "char \<Rightarrow> string \<Rightarrow> string list" where
  "str_split sep [] = [[]]"
| "str_split sep (c # cs) =
     (if c = sep then [] # str_split sep cs
      else (case str_split sep cs of [] \<Rightarrow> [[c]] | w # ws \<Rightarrow> (c # w) # ws))"

fun str_join :: "string \<Rightarrow> string list \<Rightarrow> string" where
  "str_join sep [] = []"
| "str_join sep [x] = x"
| "str_join sep (x # y # ys) = x @ sep @ str_join sep (y # ys)"

fun py_split :: "py \<Rightarrow> char \<Rightarrow> error + string list" where
  "py_split (PStr s) sep = Inr (str_split sep s)"
| "py_split _ sep = Inl AttributeError"

text \<open>\<^verbatim>\<open>str(n)\<close> for an integer, as an f-string renders it.\<close>

fun str_nat :: "nat \<Rightarrow> string" where
  "str_nat n =
     (if n < 10 then [''0123456789'' ! n]
      else str_nat (n div 10) @ [''0123456789'' ! (n mod 10)])"

definition str_int :: "int \<Rightarrow> string" where
  "str_int i = (if i < 0 then CHR ''-'' # str_nat (nat (- i)) else str_nat (nat i))"

section \<open>The external model library\<close>

text \<open>
  \<^verbatim>\<open>miabis_model\<close>, \<^verbatim>\<open>blaze_client\<close> and \<^verbatim>\<open>requests\<close> are not part of the repository.
  What the code uses of them is a parameter of the model, collected in \<open>env\<close>.

  \<^verbatim>\<open>Gender\<close> and \<^verbatim>\<open>StorageTemperature\<close> are Python enumerations, given by the names of
  their members. \<^verbatim>\<open>E[key]\<close> looks a member up by name: an unknown name is a
  \<^verbatim>\<open>KeyError\<close>, an unhashable key (a list or a dictionary) a \<^verbatim>\<open>TypeError\<close>. A member has
  a name and a value and no method \<^verbatim>\<open>get\<close>.
\<close>

datatype enum_member = Member string

fun enum_getitem :: "string list \<Rightarrow> py \<Rightarrow> error + enum_member" where
  "enum_getitem E (PStr s) = (if s \<in> set E then Inr (Member s) else Inl KeyError)"
| "enum_getitem E (PList xs) = Inl TypeError"
| "enum_getitem E (PDict kvs) = Inl TypeError"
| "enum_getitem E _ = Inl KeyError"

definition member_get :: "enum_member \<Rightarrow> string \<Rightarrow> error + py" where
  "member_get m k = Inl AttributeError"

text \<open>
  An entity is the record of the keyword arguments its constructor was called with; the
  constructor itself (\<open>Biobank_init\<close>, \<open>Network_init\<close>, \<open>Collection_init\<close> below)
  either accepts them (\<open>None\<close>) or raises.
\<close>

record biobank =
  b_identifier :: py
  b_name :: py
  b_alias :: py
  b_country :: py
  b_contact_name :: py
  b_contact_surname :: py
  b_contact_email :: py
  b_quality__management_standards :: "py list"
  b_description :: py

record network =
  n_identifier :: py
  n_name :: py
  n_managing_biobank_id :: string
  n_contact_email :: py
  n_country :: py
  n_juristic_person :: py
  n_members_collections_ids :: "py list"
  n_members_biobanks_ids :: "py list"
  n_contact_name :: py
  n_contact_surname :: py
  n_common_collaboration_topics :: "string list"
  n_description :: py

record collection =
  c_identifier :: py
  c_name :: py
  c_managing_biobank_id :: py
  c_contact_name :: py
  c_contact_surname :: py
  c_contact_email :: py
  c_country :: py
  c_genders :: "enum_member list"
  c_material_types :: "py list"
  c_age_range_low :: py
  c_age_range_high :: py
  c_diagnoses :: "py list"
  c_description :: py

text \<open>
  The three fixed requests of the sync functions (URL and GraphQL query), and the
  response of \<^verbatim>\<open>requests.post\<close>: \<^verbatim>\<open>status_code\<close>, \<^verbatim>\<open>text\<close> and what \<^verbatim>\<open>json()\<close> returns.
\<close>

datatype request = Biobanks_query | Networks_query | Collections_query

record response =
  status_code :: int
  text_body :: string
  json_body :: "error + py"

record env =
  Gender :: "string list"
  StorageTemperature :: "string list"
  Biobank_init :: "biobank \<Rightarrow> error option"
  Network_init :: "network \<Rightarrow> error option"
  Collection_init :: "collection \<Rightarrow> error option"
  requests_post :: "request \<Rightarrow> error + response"
  biobank_fhir_json :: "biobank \<Rightarrow> error + string"
  network_fhir_json :: "network \<Rightarrow> error + string"
  upload_biobank :: "biobank \<Rightarrow> error option"
  upload_network :: "network \<Rightarrow> error option"
  upload_collection :: "collection \<Rightarrow> error option"

section \<open>The entity builders\<close>

text \<open>
  The records a builder loops over: \<^verbatim>\<open>json_data.get("data", {}).get(kind, [])\<close>, iterated
  by the \<^verbatim>\<open>for\<close> statement.
\<close>

definition source_records :: "string \<Rightarrow> py \<Rightarrow> error + py list" where
  "source_records kind json_data =
     ebind (py_get json_data ''data'' (PDict [])) (\<lambda>d.
     ebind (py_get d kind (PList [])) py_iter)"

subsection \<open>Collections\<close>

text \<open>
  Line 32: \<^verbatim>\<open>[StorageTemperature[sample_type.get("name")] for sample_type in sample_types
  if sample_type.get("name")]\<close>.
\<close>

fun material_types_of :: "string list \<Rightarrow> py list \<Rightarrow> error + enum_member list" where
  "material_types_of ST [] = Inr []"
| "material_types_of ST (sample_type # rest) =
     ebind (py_get sample_type ''name'' PNone) (\<lambda>c.
       if truthy c then
         ebind (py_get sample_type ''name'' PNone) (\<lambda>k.
         ebind (enum_getitem ST k) (\<lambda>m.
         ebind (material_types_of ST rest) (\<lambda>ms. Inr (m # ms))))
       else material_types_of ST rest)"

text \<open>
  Lines 41 to 45: \<^verbatim>\<open>[Gender[("UNKNOWN" if (name := g.get("name")) == "NAV" or "NASK" else
  name).upper()] for g in sex if g.get("name") is not None]\<close>. The condition parses as
  \<^verbatim>\<open>((name := ...) == "NAV") or "NASK"\<close>. The assignment expression binds \<^verbatim>\<open>name\<close> in the
  enclosing function, so the comprehension also returns the new value of that variable.
\<close>

fun genders_of :: "string list \<Rightarrow> py list \<Rightarrow> py \<Rightarrow> error + (enum_member list \<times> py)" where
  "genders_of G [] name = Inr ([], name)"
| "genders_of G (g # gs) name =
     ebind (py_get g ''name'' PNone) (\<lambda>c.
       if c \<noteq> PNone then
         ebind (py_get g ''name'' PNone) (\<lambda>name'.
         ebind (py_upper
                 (if truthy (py_or (PBool (name' = PStr ''NAV'')) (PStr ''NASK''))
                  then PStr ''UNKNOWN'' else name')) (\<lambda>key.
         ebind (enum_getitem G key) (\<lambda>m.
         ebind (genders_of G gs name') (\<lambda>(ms, name''). Inr (m # ms, name'')))))
       else genders_of G gs name)"

text \<open>Line 50: \<^verbatim>\<open>[diagnosis.get("code") for diagnosis in diagnoses if diagnosis.get("code")]\<close>.\<close>

fun diagnosis_codes_of :: "py list \<Rightarrow> error + py list" where
  "diagnosis_codes_of [] = Inr []"
| "diagnosis_codes_of (diagnosis # rest) =
     ebind (py_get diagnosis ''code'' PNone) (\<lambda>c.
       if truthy c then
         ebind (py_get diagnosis ''code'' PNone) (\<lambda>code.
         ebind (diagnosis_codes_of rest) (\<lambda>codes. Inr (code # codes)))
       else diagnosis_codes_of rest)"

text \<open>
  Line 53: \<^verbatim>\<open>[material.get("name") for material in material_types if material.get("name")]\<close>,
  over the enumeration members of line 32.
\<close>

fun material_type_codes_of :: "enum_member list \<Rightarrow> error + py list" where
  "material_type_codes_of [] = Inr []"
| "material_type_codes_of (material # rest) =
     ebind (member_get material ''name'') (\<lambda>c.
       if truthy c then
         ebind (member_get material ''name'') (\<lambda>code.
         ebind (material_type_codes_of rest) (\<lambda>codes. Inr (code # codes)))
       else material_type_codes_of rest)"

text \<open>
  Lines 21 to 53 of the loop body: the keyword arguments the constructor is called with.
\<close>

definition collection_fields :: "env \<Rightarrow> py \<Rightarrow> error + collection" where
  "collection_fields env collection_json =
     ebind (py_get collection_json ''id'' (PStr '''')) (\<lambda>identifier.
     ebind (py_get collection_json ''name'' (PStr '''')) (\<lambda>name.
     ebind (py_get collection_json ''description'' (PStr ''unknown'')) (\<lambda>description.
     ebind (py_get collection_json ''contact'' (PDict [])) (\<lambda>contact_info.
     ebind (ebind (py_get collection_json ''country'' (PDict []))
              (\<lambda>node. py_get node ''name'' (PStr ''unknown''))) (\<lambda>country.
     ebind (py_get collection_json ''sex'' (PList [])) (\<lambda>sex.
     ebind (py_get collection_json ''age_low'' PNone) (\<lambda>age_low.
     ebind (py_get collection_json ''age_high'' PNone) (\<lambda>age_high.
     ebind (py_get collection_json ''storage_temperatures'' (PList [])) (\<lambda>storage_temperatures.
     ebind (py_get collection_json ''diagnosis_available'' (PList [])) (\<lambda>diagnoses.
     ebind (py_get collection_json ''materials'' (PList [])) (\<lambda>sample_types.
     ebind (ebind (py_iter sample_types) (material_types_of (StorageTemperature env)))
       (\<lambda>material_types.
     ebind (ebind (py_get collection_json ''biobank'' (PDict []))
              (\<lambda>node. py_get node ''id'' (PStr ''''))) (\<lambda>managing_biobank_id.
     ebind (py_get contact_info ''first_name'' (PStr ''unknown'')) (\<lambda>contact_name.
     ebind (py_get contact_info ''last_name'' (PStr ''unknown'')) (\<lambda>contact_surname.
     ebind (py_get contact_info ''email'' (PStr ''unknown'')) (\<lambda>contact_email.
     ebind (ebind (py_iter sex) (\<lambda>gs. genders_of (Gender env) gs name)) (\<lambda>(genders, name).
     ebind (ebind (py_iter diagnoses) diagnosis_codes_of) (\<lambda>diagnosis_codes.
     ebind (material_type_codes_of material_types) (\<lambda>material_type_codes.
       Inr \<lparr>
             c_identifier = identifier,
             c_name = name,
             c_managing_biobank_id = managing_biobank_id,
             c_contact_name = contact_name,
             c_contact_surname = contact_surname,
             c_contact_email = contact_email,
             c_country = country,
             c_genders = genders,
             c_material_types = material_type_codes,
             c_age_range_low = age_low,
             c_age_range_high = age_high,
             c_diagnoses = diagnosis_codes,
             c_description = description \<rparr>)))))))))))))))))))"

text \<open>
  One pass of the loop body of \<^verbatim>\<open>populate_collection_from_json\<close>: an exception that leaves
  the function (\<open>Inl\<close>), a record skipped by \<^verbatim>\<open>except ValueError\<close> with the line it prints,
  or the collection appended.
\<close>

datatype 'a built = Built 'a | Skipped string

definition collection_from_record :: "env \<Rightarrow> py \<Rightarrow> error + collection built" where
  "collection_from_record env collection_json =
     ebind (collection_fields env collection_json) (\<lambda>collection.
       case Collection_init env collection of
         None \<Rightarrow> Inr (Built collection)
       | Some exn \<Rightarrow>
           (case except_ValueError exn of
              Some e \<Rightarrow> Inr (Skipped (''Error creating Collection: '' @ e))
            | None \<Rightarrow> Inl exn))"

text \<open>
  The loop: the lines printed so far, and the list returned or the exception raised.
\<close>

fun collections_loop :: "env \<Rightarrow> py list \<Rightarrow> string list \<times> (error + collection list)" where
  "collections_loop env [] = ([], Inr [])"
| "collections_loop env (r # rs) =
     (case collection_from_record env r of
        Inl e \<Rightarrow> ([], Inl e)
      | Inr (Skipped line) \<Rightarrow>
          (case collections_loop env rs of (out, res) \<Rightarrow> (line # out, res))
      | Inr (Built c) \<Rightarrow>
          (case collections_loop env rs of
             (out, res) \<Rightarrow> (out, ebind res (\<lambda>cs. Inr (c # cs)))))"

text \<open>
  \<^verbatim>\<open>populate_collection_from_json\<close>. Its argument here is the value \<^verbatim>\<open>json.loads(json_str)\<close>
  returns; \<^verbatim>\<open>sync_collections\<close> passes \<^verbatim>\<open>json.dumps\<close> of the decoded response, which
  \<^verbatim>\<open>json.loads\<close> decodes back to the same value.
\<close>

definition populate_collection_from_json ::
  "env \<Rightarrow> py \<Rightarrow> string list \<times> (error + collection list)" where
  "populate_collection_from_json env json_data =
     (case source_records ''Collections'' json_data of
        Inl e \<Rightarrow> ([], Inl e)
      | Inr rs \<Rightarrow> collections_loop env rs)"

subsection \<open>Networks\<close>

text \<open>
  Line 104: \<^verbatim>\<open>network_json.get("common_network_elements", "").split(",")
  if network_json.get("common_network_elements") else []\<close>.
\<close>

definition collaboration_topics :: "py \<Rightarrow> error + string list" where
  "collaboration_topics network_json =
     ebind (py_get network_json ''common_network_elements'' PNone) (\<lambda>c.
       if truthy c then
         ebind (py_get network_json ''common_network_elements'' (PStr '''')) (\<lambda>s.
           py_split s CHR '','')
       else Inr [])"

text \<open>
  Lines 98 to 112 of the loop body of \<^verbatim>\<open>populate_network_from_json\<close>: the keyword
  arguments of the constructor call of lines 115 to 128.
\<close>

definition network_fields :: "py \<Rightarrow> error + network" where
  "network_fields network_json =
     ebind (py_get network_json ''id'' (PStr '''')) (\<lambda>identifier.
     ebind (py_get network_json ''name'' (PStr '''')) (\<lambda>name.
     ebind (py_get network_json ''description'' (PStr '''')) (\<lambda>description.
     ebind (py_get network_json ''juridical_person'' (PStr ''unknown'')) (\<lambda>juristic_person.
     ebind (py_get network_json ''contact'' (PDict [])) (\<lambda>contact_info.
     ebind (py_get network_json ''national_node'' (PStr ''unknown'')) (\<lambda>country.
     ebind (collaboration_topics network_json) (\<lambda>common_collaboration_topics.
     ebind (py_get contact_info ''first_name'' (PStr ''unknown'')) (\<lambda>contact_name.
     ebind (py_get contact_info ''last_name'' (PStr ''unknown'')) (\<lambda>contact_surname.
     ebind (py_get contact_info ''email'' (PStr ''unknown'')) (\<lambda>contact_email.
       let managing_biobank_id = ''bbmri-eric:ID:AT_MUG''
       in Inr \<lparr>
             n_identifier = identifier,
             n_name = name,
             n_managing_biobank_id = managing_biobank_id,
             n_contact_email = contact_email,
             n_country = country,
             n_juristic_person = juristic_person,
             n_members_collections_ids = [],
             n_members_biobanks_ids = [],
             n_contact_name = contact_name,
             n_contact_surname = contact_surname,
             n_common_collaboration_topics = common_collaboration_topics,
             n_description = description \<rparr>))))))))))"

text \<open>The constructor call; no exception is caught around it.\<close>

definition network_from_record :: "env \<Rightarrow> py \<Rightarrow> error + network" where
  "network_from_record env network_json =
     ebind (network_fields network_json) (\<lambda>network.
       case Network_init env network of
         None \<Rightarrow> Inr network
       | Some e \<Rightarrow> Inl e)"

fun networks_loop :: "env \<Rightarrow> py list \<Rightarrow> error + network list" where
  "networks_loop env [] = Inr []"
| "networks_loop env (r # rs) =
     ebind (network_from_record env r) (\<lambda>n.
     ebind (networks_loop env rs) (\<lambda>ns. Inr (n # ns)))"

definition populate_network_from_json :: "env \<Rightarrow> py \<Rightarrow> error + network list" where
  "populate_network_from_json env json_data =
     ebind (source_records ''Networks'' json_data) (networks_loop env)"

subsection \<open>Biobanks\<close>

text \<open>\<^verbatim>\<open>fetch_quality_names\<close>, lines 79 to 89: the loop over the items, then the function.\<close>

fun quality_names_loop :: "py list \<Rightarrow> error + py list" where
  "quality_names_loop [] = Inr []"
| "quality_names_loop (item # rest) =
     ebind (py_get item ''quality_standard'' (PDict [])) (\<lambda>quality_standard.
     ebind (py_get quality_standard ''name'' PNone) (\<lambda>name.
     ebind (quality_names_loop rest) (\<lambda>names.
       Inr (if truthy name then name # names else names))))"

definition fetch_quality_names :: "py \<Rightarrow> error + py list" where
  "fetch_quality_names quality_data = ebind (py_iter quality_data) quality_names_loop"

text \<open>
  Lines 141 to 154 of the loop body of \<^verbatim>\<open>populate_biobank_from_json\<close>: the keyword
  arguments of the constructor call of lines 157 to 167.
\<close>

definition biobank_fields :: "py \<Rightarrow> error + biobank" where
  "biobank_fields biobank_json =
     ebind (py_get biobank_json ''id'' (PStr '''')) (\<lambda>identifier.
     ebind (py_get biobank_json ''name'' (PStr '''')) (\<lambda>name.
     ebind (py_get biobank_json ''acronym'' (PStr ''unknown'')) (\<lambda>alias.
     ebind (ebind (py_get biobank_json ''country'' (PDict []))
              (\<lambda>node. py_get node ''name'' (PStr ''''))) (\<lambda>country.
     ebind (py_get biobank_json ''description'' (PStr '''')) (\<lambda>description.
     ebind (py_get biobank_json ''contact'' (PDict [])) (\<lambda>contact_info.
     ebind (py_get contact_info ''first_name'' (PStr ''unknown'')) (\<lambda>contact_name.
     ebind (py_get contact_info ''last_name'' (PStr ''unknown'')) (\<lambda>contact_surname.
     ebind (py_get contact_info ''email'' (PStr ''unknown'')) (\<lambda>contact_email.
     ebind (ebind (py_get biobank_json ''quality'' (PList [])) fetch_quality_names)
       (\<lambda>quality_management_standards.
       Inr \<lparr>
             b_identifier = identifier,
             b_name = name,
             b_alias = alias,
             b_country = country,
             b_contact_name = contact_name,
             b_contact_surname = contact_surname,
             b_contact_email = contact_email,
             b_quality__management_standards = quality_management_standards,
             b_description = description \<rparr>))))))))))"

text \<open>The constructor call; here too no exception is caught.\<close>

definition biobank_from_record :: "env \<Rightarrow> py \<Rightarrow> error + biobank" where
  "biobank_from_record env biobank_json =
     ebind (biobank_fields biobank_json) (\<lambda>biobank.
       case Biobank_init env biobank of
         None \<Rightarrow> Inr biobank
       | Some e \<Rightarrow> Inl e)"

fun biobanks_loop :: "env \<Rightarrow> py list \<Rightarrow> error + biobank list" where
  "biobanks_loop env [] = Inr []"
| "biobanks_loop env (r # rs) =
     ebind (biobank_from_record env r) (\<lambda>b.
     ebind (biobanks_loop env rs) (\<lambda>bs. Inr (b # bs)))"

definition populate_biobank_from_json :: "env \<Rightarrow> py \<Rightarrow> error + biobank list" where
  "populate_biobank_from_json env json_data =
     ebind (source_records ''Biobanks'' json_data) (biobanks_loop env)"

section \<open>The sync functions\<close>

text \<open>
  What a sync function does to the outside world, in order: the request it posts, the
  lines it prints, and the calls of the upload operations of \<^verbatim>\<open>BlazeClient\<close>. A run is
  the trace of these events and the exception that ended it, if any.
\<close>

datatype event =
    Post request
  | Print string
  | Upload_biobank biobank
  | Upload_network network
  | Upload_collection collection

fun publish_biobanks :: "env \<Rightarrow> biobank list \<Rightarrow> event list \<times> error option" where
  "publish_biobanks env [] = ([], None)"
| "publish_biobanks env (biobank # rest) =
     (case biobank_fhir_json env biobank of
        Inl e \<Rightarrow> ([], Some e)
      | Inr s \<Rightarrow>
          (case upload_biobank env biobank of
             Some e \<Rightarrow> ([Print s, Upload_biobank biobank], Some e)
           | None \<Rightarrow>
               (case publish_biobanks env rest of
                  (tr, r) \<Rightarrow> (Print s # Upload_biobank biobank # tr, r))))"

fun publish_networks :: "env \<Rightarrow> network list \<Rightarrow> event list \<times> error option" where
  "publish_networks env [] = ([], None)"
| "publish_networks env (network # rest) =
     (case network_fhir_json env network of
        Inl e \<Rightarrow> ([], Some e)
      | Inr s \<Rightarrow>
          (case upload_network env network of
             Some e \<Rightarrow> ([Print s, Upload_network network], Some e)
           | None \<Rightarrow>
               (case publish_networks env rest of
                  (tr, r) \<Rightarrow> (Print s # Upload_network network # tr, r))))"

fun publish_collections :: "env \<Rightarrow> collection list \<Rightarrow> event list \<times> error option" where
  "publish_collections env [] = ([], None)"
| "publish_collections env (collection # rest) =
     (case upload_collection env collection of
        Some e \<Rightarrow> ([Upload_collection collection], Some e)
      | None \<Rightarrow>
          (case publish_collections env rest of
             (tr, r) \<Rightarrow> (Upload_collection collection # tr, r)))"

definition failed_to_fetch :: "response \<Rightarrow> string" where
  "failed_to_fetch response =
     ''Failed to fetch data: '' @ str_int (status_code response) @ '' - '' @ text_body response"

definition sync_biobanks :: "env \<Rightarrow> event list \<times> error option" where
  "sync_biobanks env =
     (case requests_post env Biobanks_query of
        Inl e \<Rightarrow> ([Post Biobanks_query], Some e)
      | Inr response \<Rightarrow>
          if status_code response = 200 then
            (case json_body response of
               Inl e \<Rightarrow> ([Post Biobanks_query], Some e)
             | Inr json_data \<Rightarrow>
                 (case populate_biobank_from_json env json_data of
                    Inl e \<Rightarrow> ([Post Biobanks_query], Some e)
                  | Inr biobanks \<Rightarrow>
                      (case publish_biobanks env biobanks of
                         (tr, r) \<Rightarrow> (Post Biobanks_query # tr, r))))
          else ([Post Biobanks_query, Print (failed_to_fetch response)], None))"

definition sync_networks :: "env \<Rightarrow> event list \<times> error option" where
  "sync_networks env =
     (case requests_post env Networks_query of
        Inl e \<Rightarrow> ([Post Networks_query], Some e)
      | Inr response \<Rightarrow>
          if status_code response = 200 then
            (case json_body response of
               Inl e \<Rightarrow> ([Post Networks_query], Some e)
             | Inr json_data \<Rightarrow>
                 (case populate_network_from_json env json_data of
                    Inl e \<Rightarrow> ([Post Networks_query], Some e)
                  | Inr networks \<Rightarrow>
                      (case publish_networks env networks of
                         (tr, r) \<Rightarrow> (Post Networks_query # tr, r))))
          else ([Post Networks_query, Print (failed_to_fetch response)], None))"

definition sync_collections :: "env \<Rightarrow> event list \<times> error option" where
  "sync_collections env =
     (case requests_post env Collections_query of
        Inl e \<Rightarrow> ([Post Collections_query], Some e)
      | Inr response \<Rightarrow>
          if status_code response = 200 then
            (case json_body response of
               Inl e \<Rightarrow> ([Post Collections_query], Some e)
             | Inr json_data \<Rightarrow>
                 (case populate_collection_from_json env json_data of
                    (out, Inl e) \<Rightarrow> (Post Collections_query # map Print out, Some e)
                  | (out, Inr collections) \<Rightarrow>
                      (case publish_collections env collections of
                         (tr, r) \<Rightarrow> (Post Collections_query # map Print out @ tr, r))))
          else ([Post Collections_query, Print (failed_to_fetch response)], None))"

text \<open>The entities handed to the upload operations, in the order of the calls.\<close>

fun uploaded_biobanks :: "event list \<Rightarrow> biobank list" where
  "uploaded_biobanks [] = []"
| "uploaded_biobanks (Upload_biobank b # tr) = b # uploaded_biobanks tr"
| "uploaded_biobanks (ev # tr) = uploaded_biobanks tr"

fun uploaded_networks :: "event list \<Rightarrow> network list" where
  "uploaded_networks [] = []"
| "uploaded_networks (Upload_network n # tr) = n # uploaded_networks tr"
| "uploaded_networks (ev # tr) = uploaded_networks tr"

fun uploaded_collections :: "event list \<Rightarrow> collection list" where
  "uploaded_collections [] = []"
| "uploaded_collections (Upload_collection c # tr) = c # uploaded_collections tr"
| "uploaded_collections (ev # tr) = uploaded_collections tr"

section \<open>Concrete libraries and payloads for evaluation\<close>

text \<open>
  A library instance to run the code on: the enumerations' member names, constructors
  that reject an empty identifier with \<^verbatim>\<open>ValueError\<close>, and a store that accepts every
  upload. The response of the directory is the argument.
\<close>

definition strict_env :: "(request \<Rightarrow> error + response) \<Rightarrow> env" where
  "strict_env post = \<lparr>
     Gender = [''MALE'', ''FEMALE'', ''OTHER'', ''UNKNOWN''],
     StorageTemperature = [''TEMPERATURE_ROOM'', ''TEMPERATURE_LN''],
     Biobank_init = (\<lambda>b. if b_identifier b = PStr '''' then Some (ValueError ''empty id'') else None),
     Network_init = (\<lambda>n. if n_identifier n = PStr '''' then Some (ValueError ''empty id'') else None),
     Collection_init =
       (\<lambda>c. if c_identifier c = PStr '''' then Some (ValueError ''empty id'') else None),
     requests_post = post,
     biobank_fhir_json = (\<lambda>b. Inr ''{}''),
     network_fhir_json = (\<lambda>n. Inr ''{}''),
     upload_biobank = (\<lambda>b. None),
     upload_network = (\<lambda>n. None),
     upload_collection = (\<lambda>c. None) \<rparr>"

text \<open>The same with constructors that accept every argument.\<close>

definition lax_env :: "(request \<Rightarrow> error + response) \<Rightarrow> env" where
  "lax_env post = (strict_env post) \<lparr>
     Biobank_init := (\<lambda>b. None),
     Network_init := (\<lambda>n. None),
     Collection_init := (\<lambda>c. None) \<rparr>"

definition reply :: "int \<Rightarrow> string \<Rightarrow> py \<Rightarrow> request \<Rightarrow> error + response" where
  "reply code body json_data req =
     Inr \<lparr> status_code = code, text_body = body, json_body = Inr json_data \<rparr>"

definition payload :: "string \<Rightarrow> py list \<Rightarrow> py" where
  "payload kind records = PDict [(''data'', PDict [(kind, PList records)])]"

text \<open>The collection a source record contributes to the returned list, if any.\<close>

definition collection_of_record :: "env \<Rightarrow> py \<Rightarrow> collection option" where
  "collection_of_record env r =
     (case collection_from_record env r of
        Inr (Built c) \<Rightarrow> Some c
      | _ \<Rightarrow> None)"

text \<open>
  The collection record of the specification's example: \<^verbatim>\<open>{"sex": [{"name": "NAV"},
  {"name": "FEMALE"}], "age_low": 0, "materials": [{"name": "PLASMA"}]}\<close>.
\<close>

definition plasma_record :: py where
  "plasma_record = PDict
     [(''sex'', PList [PDict [(''name'', PStr ''NAV'')], PDict [(''name'', PStr ''FEMALE'')]]),
      (''age_low'', PInt 0),
      (''materials'', PList [PDict [(''name'', PStr ''PLASMA'')]])]"

text \<open>A response body with records of all three kinds; the second collection has no id.\<close>

definition directory_payload :: py where
  "directory_payload = PDict [(''data'', PDict
     [(''Biobanks'', PList [PDict [(''id'', PStr ''b1'')], PDict [(''id'', PStr ''b2'')]]),
      (''Networks'', PList [PDict [(''id'', PStr ''n1'')], PDict [(''id'', PStr ''n2'')]]),
      (''Collections'', PList [PDict [(''id'', PStr ''c1'')], PDict [(''name'', PStr ''no id'')],
                             PDict [(''id'', PStr ''c3'')]])])]"

section \<open>Basic facts\<close>

lemma ebind_Inl [simp]: "ebind (Inl e) f = Inl e"
  by (simp add: ebind_def)

lemma ebind_Inr [simp]: "ebind (Inr x) f = f x"
  by (simp add: ebind_def)

lemma ebind_eq_Inr: "ebind m f = Inr y \<longleftrightarrow> (\<exists>x. m = Inr x \<and> f x = Inr y)"
  by (cases m) simp_all

lemma dict_get_absent [simp]: "map_of kvs k = None \<Longrightarrow> dict_get kvs k d = d"
  by (simp add: dict_get_def)

lemma dict_get_present [simp]: "map_of kvs k = Some v \<Longrightarrow> dict_get kvs k d = v"
  by (simp add: dict_get_def)

section \<open>Splitting and joining\<close>

lemma str_split_not_Nil: "str_split sep s \<noteq> []"
  by (induction s) (auto split: list.splits)

lemma str_join_Cons: "ws \<noteq> [] \<Longrightarrow> str_join sep (w # ws) = w @ sep @ str_join sep ws"
  by (cases ws) simp_all

lemma str_join_str_split: "str_join [sep] (str_split sep s) = s"
proof (induction s)
  case Nil
  show ?case by simp
next
  case (Cons c cs)
  obtain w ws where ws: "str_split sep cs = w # ws"
    using str_split_not_Nil [of sep cs] by (cases "str_split sep cs") auto
  show ?case
  proof (cases "c = sep")
    case True
    then show ?thesis
      using Cons.IH by (simp add: str_join_Cons str_split_not_Nil)
  next
    case False
    with Cons.IH ws show ?thesis
      by (cases ws) simp_all
  qed
qed

lemma str_split_no_sep: "list_all (\<lambda>w. sep \<notin> set w) (str_split sep s)"
  by (induction s) (auto split: list.splits)

lemma length_str_split: "length (str_split sep s) = Suc (count_list s sep)"
  by (induction s) (auto split: list.splits simp: str_split_not_Nil)

section \<open>Networks\<close>

lemma collaboration_topics_string:
  "map_of kvs ''common_network_elements'' = Some (PStr s) \<Longrightarrow> s \<noteq> [] \<Longrightarrow>
   collaboration_topics (PDict kvs) = Inr (str_split CHR '','' s)"
  by (simp add: collaboration_topics_def)

lemma collaboration_topics_falsy:
  "\<not> truthy (dict_get kvs ''common_network_elements'' PNone) \<Longrightarrow>
   collaboration_topics (PDict kvs) = Inr []"
  by (simp add: collaboration_topics_def)

lemma network_fields_topics:
  "network_fields r = Inr n \<Longrightarrow>
   collaboration_topics r = Inr (n_common_collaboration_topics n)"
  by (auto simp: network_fields_def ebind_eq_Inr Let_def)

lemma network_fields_managing:
  "network_fields r = Inr n \<Longrightarrow> n_managing_biobank_id n = ''bbmri-eric:ID:AT_MUG''"
  by (auto simp: network_fields_def ebind_eq_Inr Let_def)

lemma network_from_record_fields:
  "network_from_record env r = Inr n \<longleftrightarrow> network_fields r = Inr n \<and> Network_init env n = None"
  by (auto simp: network_from_record_def ebind_eq_Inr split: option.splits)

lemma networks_loop_all2:
  "networks_loop env rs = Inr ns \<Longrightarrow>
   list_all2 (\<lambda>r n. network_from_record env r = Inr n) rs ns"
proof (induction rs arbitrary: ns)
  case Nil
  then show ?case by simp
next
  case (Cons r rs)
  then show ?case by (auto simp: ebind_eq_Inr)
qed

lemma networks_loop_managing:
  "networks_loop env rs = Inr ns \<Longrightarrow>
   list_all (\<lambda>n. n_managing_biobank_id n = ''bbmri-eric:ID:AT_MUG'') ns"
proof (induction rs arbitrary: ns)
  case Nil
  then show ?case by simp
next
  case (Cons r rs)
  then show ?case
    by (auto simp: ebind_eq_Inr network_from_record_fields dest: network_fields_managing)
qed

text \<open>
  C8. Every network that \<open>populate_network_from_json\<close> returns has the managing biobank
  identifier \<^verbatim>\<open>bbmri-eric:ID:AT_MUG\<close>, whatever the payload and the library are.
\<close>

theorem network_managing_biobank_fixed:
  assumes "populate_network_from_json env json_data = Inr ns"
  shows "list_all (\<lambda>n. n_managing_biobank_id n = ''bbmri-eric:ID:AT_MUG'') ns"
proof -
  from assms obtain rs where "networks_loop env rs = Inr ns"
    by (auto simp: populate_network_from_json_def ebind_eq_Inr)
  then show ?thesis
    by (rule networks_loop_managing)
qed

theorem network_managing_biobank_fixed_witness:
  "populate_network_from_json (lax_env (reply 200 [] PNone))
     (payload ''Networks''
        [PDict [(''id'', PStr ''n1'')], PDict [(''biobank'', PDict [(''id'', PStr ''b7'')])]])
   = Inr [\<lparr> n_identifier = PStr ''n1'', n_name = PStr '''',
            n_managing_biobank_id = ''bbmri-eric:ID:AT_MUG'',
            n_contact_email = PStr ''unknown'', n_country = PStr ''unknown'',
            n_juristic_person = PStr ''unknown'', n_members_collections_ids = [],
            n_members_biobanks_ids = [], n_contact_name = PStr ''unknown'',
            n_contact_surname = PStr ''unknown'', n_common_collaboration_topics = [],
            n_description = PStr '''' \<rparr>,
          \<lparr> n_identifier = PStr '''', n_name = PStr '''',
            n_managing_biobank_id = ''bbmri-eric:ID:AT_MUG'',
            n_contact_email = PStr ''unknown'', n_country = PStr ''unknown'',
            n_juristic_person = PStr ''unknown'', n_members_collections_ids = [],
            n_members_biobanks_ids = [], n_contact_name = PStr ''unknown'',
            n_contact_surname = PStr ''unknown'', n_common_collaboration_topics = [],
            n_description = PStr '''' \<rparr>]
   \<and> list_all (\<lambda>n. n_managing_biobank_id n = ''bbmri-eric:ID:AT_MUG'')
        [\<lparr> n_identifier = PStr ''n1'', n_name = PStr '''',
            n_managing_biobank_id = ''bbmri-eric:ID:AT_MUG'',
            n_contact_email = PStr ''unknown'', n_country = PStr ''unknown'',
            n_juristic_person = PStr ''unknown'', n_members_collections_ids = [],
            n_members_biobanks_ids = [], n_contact_name = PStr ''unknown'',
            n_contact_surname = PStr ''unknown'', n_common_collaboration_topics = [],
            n_description = PStr '''' \<rparr>,
          \<lparr> n_identifier = PStr '''', n_name = PStr '''',
            n_managing_biobank_id = ''bbmri-eric:ID:AT_MUG'',
            n_contact_email = PStr ''unknown'', n_country = PStr ''unknown'',
            n_juristic_person = PStr ''unknown'', n_members_collections_ids = [],
            n_members_biobanks_ids = [], n_contact_name = PStr ''unknown'',
            n_contact_surname = PStr ''unknown'', n_common_collaboration_topics = [],
            n_description = PStr '''' \<rparr>]"
  (is "?run = Inr ?ns \<and> _")
proof -
  have run: "?run = Inr ?ns"
    by code_simp
  from network_managing_biobank_fixed [OF run] run show ?thesis
    by simp
qed

text \<open>
  C10. For a network record whose \<^verbatim>\<open>common_network_elements\<close> is a non-empty string
  \<open>s\<close>, the collaboration topics are \<open>s\<close> split at every comma: joining them with a comma
  gives \<open>s\<close> back, no topic contains a comma (so nothing is trimmed and no empty segment
  is dropped: there is one topic more than there are commas). When the field is absent
  or false (empty string, \<^verbatim>\<open>None\<close>, zero, ...), the list is empty. The network built from
  the record carries this list.
\<close>

theorem collaboration_topics_split_join:
  "(map_of kvs ''common_network_elements'' = Some (PStr s) \<and> s \<noteq> [] \<longrightarrow>
      collaboration_topics (PDict kvs) = Inr (str_split CHR '','' s) \<and>
      str_join '','' (str_split CHR '','' s) = s \<and>
      list_all (\<lambda>w. CHR '','' \<notin> set w) (str_split CHR '','' s) \<and>
      length (str_split CHR '','' s) = Suc (count_list s CHR '','')) \<and>
   (\<not> truthy (dict_get kvs ''common_network_elements'' PNone) \<longrightarrow>
      collaboration_topics (PDict kvs) = Inr []) \<and>
   (network_from_record env (PDict kvs) = Inr n \<longrightarrow>
      collaboration_topics (PDict kvs) = Inr (n_common_collaboration_topics n))"
proof (intro conjI impI)
  assume "map_of kvs ''common_network_elements'' = Some (PStr s) \<and> s \<noteq> []"
  then show "collaboration_topics (PDict kvs) = Inr (str_split CHR '','' s)"
    by (simp add: collaboration_topics_string)
next
  show "str_join '','' (str_split CHR '','' s) = s"
    by (rule str_join_str_split)
next
  show "list_all (\<lambda>w. CHR '','' \<notin> set w) (str_split CHR '','' s)"
    by (rule str_split_no_sep)
next
  show "length (str_split CHR '','' s) = Suc (count_list s CHR '','')"
    by (rule length_str_split)
next
  assume "\<not> truthy (dict_get kvs ''common_network_elements'' PNone)"
  then show "collaboration_topics (PDict kvs) = Inr []"
    by (rule collaboration_topics_falsy)
next
  assume "network_from_record env (PDict kvs) = Inr n"
  then show "collaboration_topics (PDict kvs) = Inr (n_common_collaboration_topics n)"
    by (simp add: network_from_record_fields network_fields_topics)
qed

theorem collaboration_topics_split_join_witness:
  "collaboration_topics (PDict [(''common_network_elements'', PStr '' a,b ,,c'')])
     = Inr ['' a'', ''b '', '''', ''c'']
   \<and> str_join '','' ['' a'', ''b '', '''', ''c''] = '' a,b ,,c''
   \<and> collaboration_topics (PDict [(''common_network_elements'', PStr '''')]) = Inr []
   \<and> collaboration_topics (PDict [(''id'', PStr ''n1'')]) = Inr []
   \<and> (case network_from_record (lax_env (reply 200 [] PNone))
              (PDict [(''common_network_elements'', PStr '' a,b ,,c'')]) of
         Inl e \<Rightarrow> [] | Inr n \<Rightarrow> n_common_collaboration_topics n)
     = ['' a'', ''b '', '''', ''c'']"
proof -
  let ?kvs = "[(''common_network_elements'', PStr '' a,b ,,c'')]"
  let ?env = "lax_env (reply 200 [] PNone)"
  have split: "str_split CHR '','' '' a,b ,,c'' = ['' a'', ''b '', '''', ''c'']"
    by simp
  obtain n where n: "network_from_record ?env (PDict ?kvs) = Inr n"
    by (simp add: network_from_record_def network_fields_def collaboration_topics_def
        lax_env_def strict_env_def Let_def)
  note inst = collaboration_topics_split_join [of ?kvs "'' a,b ,,c''" ?env n]
  have a: "collaboration_topics (PDict ?kvs) = Inr ['' a'', ''b '', '''', ''c'']"
    using inst split by simp
  have b: "str_join '','' ['' a'', ''b '', '''', ''c''] = '' a,b ,,c''"
    using inst split by simp
  have "collaboration_topics (PDict ?kvs) = Inr (n_common_collaboration_topics n)"
    using inst n by blast
  with a have c: "n_common_collaboration_topics n = ['' a'', ''b '', '''', ''c'']"
    by simp
  have d: "collaboration_topics (PDict [(''common_network_elements'', PStr '''')]) = Inr []"
    using collaboration_topics_split_join
      [of "[(''common_network_elements'', PStr '''')]" "''''" ?env n]
    by simp
  have e: "collaboration_topics (PDict [(''id'', PStr ''n1'')]) = Inr []"
    using collaboration_topics_split_join [of "[(''id'', PStr ''n1'')]" "''''" ?env n]
    by simp
  from a c n have "(case network_from_record ?env (PDict ?kvs) of
        Inl e \<Rightarrow> [] | Inr n \<Rightarrow> n_common_collaboration_topics n)
      = ['' a'', ''b '', '''', ''c'']"
    by simp
  with a b d e show ?thesis
    by simp
qed


section \<open>The sync functions on a failed fetch\<close>

text \<open>
  C6. When the directory answers with a status outside 200..299, each sync function posts
  its one request, prints one line that carries the status code and the response body,
  and ends without an exception: nothing else is posted (no retry), no entity is built
  from the body and no upload operation is called.
\<close>

theorem sync_fetch_failure:
  "(requests_post env Biobanks_query = Inr r \<and> \<not> (200 \<le> status_code r \<and> status_code r < 300) \<longrightarrow>
      sync_biobanks env =
        ([Post Biobanks_query,
          Print (''Failed to fetch data: '' @ str_int (status_code r) @ '' - '' @ text_body r)],
         None)) \<and>
   (requests_post env Networks_query = Inr r \<and> \<not> (200 \<le> status_code r \<and> status_code r < 300) \<longrightarrow>
      sync_networks env =
        ([Post Networks_query,
          Print (''Failed to fetch data: '' @ str_int (status_code r) @ '' - '' @ text_body r)],
         None)) \<and>
   (requests_post env Collections_query = Inr r \<and> \<not> (200 \<le> status_code r \<and> status_code r < 300) \<longrightarrow>
      sync_collections env =
        ([Post Collections_query,
          Print (''Failed to fetch data: '' @ str_int (status_code r) @ '' - '' @ text_body r)],
         None))"
proof -
  have "status_code r \<noteq> 200" if "\<not> (200 \<le> status_code r \<and> status_code r < 300)"
    using that by auto
  then show ?thesis
    by (simp add: sync_biobanks_def sync_networks_def sync_collections_def failed_to_fetch_def)
qed

theorem sync_fetch_failure_witness:
  "sync_biobanks (strict_env (reply 503 ''Service Unavailable'' (payload ''Biobanks'' [PDict []])))
     = ([Post Biobanks_query, Print ''Failed to fetch data: 503 - Service Unavailable''], None)
   \<and> sync_networks (strict_env (reply 503 ''Service Unavailable'' (payload ''Biobanks'' [PDict []])))
     = ([Post Networks_query, Print ''Failed to fetch data: 503 - Service Unavailable''], None)
   \<and> sync_collections (strict_env (reply 503 ''Service Unavailable'' (payload ''Biobanks'' [PDict []])))
     = ([Post Collections_query, Print ''Failed to fetch data: 503 - Service Unavailable''], None)"
proof -
  let ?body = "payload ''Biobanks'' [PDict []]"
  let ?env = "strict_env (reply 503 ''Service Unavailable'' ?body)"
  let ?r = "\<lparr> status_code = 503, text_body = ''Service Unavailable'', json_body = Inr ?body \<rparr>"
  have post: "requests_post ?env q = Inr ?r" for q
    by (simp add: strict_env_def reply_def)
  have status: "\<not> (200 \<le> status_code ?r \<and> status_code ?r < 300)"
    by simp
  have str: "str_int 503 = ''503''"
    by (simp add: str_int_def)
  from sync_fetch_failure [of ?env ?r] post status show ?thesis
    by (simp add: str)
qed

section \<open>The gender mapping\<close>

lemma synonym_check_true: "truthy (py_or (PBool (v = PStr ''NAV'')) (PStr ''NASK''))"
  by (simp add: py_or_def)

lemma upper_UNKNOWN: "py_upper (PStr ''UNKNOWN'') = Inr (PStr ''UNKNOWN'')"
  by (simp add: upper_char_def)

lemma genders_of_dicts:
  assumes "''UNKNOWN'' \<in> set G"
  shows "genders_of G (map PDict entries) name =
     Inr (map (\<lambda>e. Member ''UNKNOWN'') (filter (\<lambda>e. dict_get e ''name'' PNone \<noteq> PNone) entries),
          (case filter (\<lambda>e. dict_get e ''name'' PNone \<noteq> PNone) entries of
             [] \<Rightarrow> name
           | e # es \<Rightarrow> dict_get (last (e # es)) ''name'' PNone))"
proof (induction entries arbitrary: name)
  case Nil
  show ?case by simp
next
  case (Cons e entries)
  show ?case
  proof (cases "dict_get e ''name'' PNone = PNone")
    case True
    then show ?thesis
      by (simp add: Cons.IH)
  next
    case False
    then show ?thesis
      using assms
      by (simp add: Cons.IH synonym_check_true upper_UNKNOWN del: py_upper.simps
          split: list.splits)
  qed
qed

lemma genders_of_all_unknown:
  "genders_of G sex name = Inr (ms, name') \<Longrightarrow> list_all (\<lambda>m. m = Member ''UNKNOWN'') ms"
proof (induction sex arbitrary: name ms name')
  case Nil
  then show ?case by simp
next
  case (Cons g gs)
  show ?case
  proof (cases g)
    case (PDict kvs)
    show ?thesis
    proof (cases "dict_get kvs ''name'' PNone = PNone")
      case True
      with Cons PDict show ?thesis
        by simp
    next
      case False
      with Cons.prems PDict obtain m ms0 where
        m: "enum_getitem G (PStr ''UNKNOWN'') = Inr m"
        and rest: "genders_of G gs (dict_get kvs ''name'' PNone) = Inr (ms0, name')"
        and ms: "ms = m # ms0"
        by (auto simp: synonym_check_true upper_UNKNOWN ebind_eq_Inr simp del: py_upper.simps)
      from m have "m = Member ''UNKNOWN''"
        by (auto split: if_splits)
      with ms Cons.IH [OF rest] show ?thesis
        by simp
    qed
  qed (use Cons.prems in simp_all)
qed

lemma collection_fields_genders:
  "collection_fields env r = Inr c \<Longrightarrow> list_all (\<lambda>m. m = Member ''UNKNOWN'') (c_genders c)"
  by (auto simp: collection_fields_def ebind_eq_Inr dest: genders_of_all_unknown)

text \<open>
  C1. The synonym test \<^verbatim>\<open>(name := g.get("name")) == "NAV" or "NASK"\<close> is true for every
  token. So, when \<^verbatim>\<open>Gender\<close> has a member \<^verbatim>\<open>UNKNOWN\<close>, the gender mapping turns every
  entry of the sex list whose name is present and not \<^verbatim>\<open>None\<close> into that member, whatever
  the token is, and leaves the other entries out; and every collection the builder
  constructs has only \<^verbatim>\<open>UNKNOWN\<close> genders.
\<close>

theorem gender_always_unknown:
  "truthy (py_or (PBool (v = PStr ''NAV'')) (PStr ''NASK'')) \<and>
   (''UNKNOWN'' \<in> set G \<longrightarrow>
      (\<exists>name'. genders_of G (map PDict entries) name =
         Inr (map (\<lambda>e. Member ''UNKNOWN'')
                (filter (\<lambda>e. dict_get e ''name'' PNone \<noteq> PNone) entries), name'))) \<and>
   (collection_fields env collection_json = Inr c \<longrightarrow>
      list_all (\<lambda>m. m = Member ''UNKNOWN'') (c_genders c))"
  by (simp add: synonym_check_true genders_of_dicts collection_fields_genders)

theorem gender_always_unknown_witness:
  "(\<exists>name'. genders_of [''MALE'', ''FEMALE'', ''OTHER'', ''UNKNOWN'']
      [PDict [(''name'', PStr ''NAV'')], PDict [(''name'', PStr ''FEMALE'')], PDict [],
       PDict [(''name'', PNone)], PDict [(''name'', PStr ''male'')]] (PStr ''c'')
     = Inr ([Member ''UNKNOWN'', Member ''UNKNOWN'', Member ''UNKNOWN''], name'))
   \<and> (case collection_fields (lax_env (reply 200 [] PNone))
          (PDict [(''sex'', PList [PDict [(''name'', PStr ''NAV'')],
                                   PDict [(''name'', PStr ''FEMALE'')]])]) of
        Inl e \<Rightarrow> [] | Inr c \<Rightarrow> c_genders c)
     = [Member ''UNKNOWN'', Member ''UNKNOWN'']"
proof -
  let ?G = "[''MALE'', ''FEMALE'', ''OTHER'', ''UNKNOWN'']"
  let ?entries = "[[(''name'', PStr ''NAV'')], [(''name'', PStr ''FEMALE'')], [],
                   [(''name'', PNone)], [(''name'', PStr ''male'')]]"
  let ?env = "lax_env (reply 200 [] PNone)"
  let ?rec = "PDict [(''sex'', PList [PDict [(''name'', PStr ''NAV'')],
                                      PDict [(''name'', PStr ''FEMALE'')]])]"
  have member: "''UNKNOWN'' \<in> set ?G"
    by simp
  obtain c where c: "collection_fields ?env ?rec = Inr c"
    and genders: "c_genders c = [Member ''UNKNOWN'', Member ''UNKNOWN'']"
    by (simp add: collection_fields_def lax_env_def strict_env_def dict_get_def py_or_def
        upper_char_def)
  note inst = gender_always_unknown [of "PStr ''FEMALE''" ?G ?entries "PStr ''c''" ?env ?rec c]
  from inst member have "\<exists>name'. genders_of ?G (map PDict ?entries) (PStr ''c'') =
      Inr (map (\<lambda>e. Member ''UNKNOWN'')
             (filter (\<lambda>e. dict_get e ''name'' PNone \<noteq> PNone) ?entries), name')"
    by blast
  then have a: "\<exists>name'. genders_of ?G (map PDict ?entries) (PStr ''c'') =
      Inr ([Member ''UNKNOWN'', Member ''UNKNOWN'', Member ''UNKNOWN''], name')"
    by (simp add: dict_get_def)
  from inst c have "list_all (\<lambda>m. m = Member ''UNKNOWN'') (c_genders c)"
    by blast
  with c genders a show ?thesis
    by simp
qed


section \<open>The loops of the builders\<close>

lemma biobank_from_record_fields:
  "biobank_from_record env r = Inr b \<longleftrightarrow> biobank_fields r = Inr b \<and> Biobank_init env b = None"
  by (auto simp: biobank_from_record_def ebind_eq_Inr split: option.splits)

lemma collection_of_record_fields:
  "collection_of_record env r = Some c \<longleftrightarrow>
   collection_fields env r = Inr c \<and> Collection_init env c = None"
proof (cases "collection_fields env r")
  case (Inl e)
  then show ?thesis
    by (simp add: collection_of_record_def collection_from_record_def)
next
  case (Inr x)
  show ?thesis
  proof (cases "Collection_init env x")
    case None
    with Inr show ?thesis
      by (auto simp: collection_of_record_def collection_from_record_def)
  next
    case (Some e)
    with Inr show ?thesis
      by (cases e) (auto simp: collection_of_record_def collection_from_record_def)
  qed
qed

lemma biobanks_loop_all2:
  "biobanks_loop env rs = Inr bs \<Longrightarrow>
   list_all2 (\<lambda>r b. biobank_from_record env r = Inr b) rs bs"
proof (induction rs arbitrary: bs)
  case Nil
  then show ?case by simp
next
  case (Cons r rs)
  then show ?case by (auto simp: ebind_eq_Inr)
qed

lemma collections_loop_map_filter:
  "snd (collections_loop env rs) = Inr cs \<Longrightarrow> cs = List.map_filter (collection_of_record env) rs"
proof (induction rs arbitrary: cs)
  case Nil
  then show ?case by (simp add: map_filter_simps)
next
  case (Cons r rs)
  show ?case
  proof (cases "collection_from_record env r")
    case (Inl e)
    with Cons.prems show ?thesis by simp
  next
    case (Inr b)
    show ?thesis
    proof (cases b)
      case (Built c)
      with Inr Cons.prems obtain cs0 where
        rest: "snd (collections_loop env rs) = Inr cs0" and cs: "cs = c # cs0"
        by (auto simp: ebind_eq_Inr split: prod.splits)
      from Cons.IH [OF rest] cs Inr Built show ?thesis
        by (simp add: map_filter_simps collection_of_record_def)
    next
      case (Skipped line)
      with Inr Cons.prems have "snd (collections_loop env rs) = Inr cs"
        by (auto split: prod.splits)
      from Cons.IH [OF this] Inr Skipped show ?thesis
        by (simp add: map_filter_simps collection_of_record_def)
    qed
  qed
qed

section \<open>The publishing loops\<close>

lemma publish_biobanks_prefix: "prefix (uploaded_biobanks (fst (publish_biobanks env bs))) bs"
  by (induction bs) (auto split: sum.splits option.splits prod.splits)

lemma publish_networks_prefix: "prefix (uploaded_networks (fst (publish_networks env ns))) ns"
  by (induction ns) (auto split: sum.splits option.splits prod.splits)

lemma publish_collections_prefix:
  "prefix (uploaded_collections (fst (publish_collections env cs))) cs"
  by (induction cs) (auto split: option.splits prod.splits)

lemma publish_biobanks_all:
  "snd (publish_biobanks env bs) = None \<Longrightarrow> uploaded_biobanks (fst (publish_biobanks env bs)) = bs"
  by (induction bs) (auto split: sum.splits option.splits prod.splits)

lemma publish_networks_all:
  "snd (publish_networks env ns) = None \<Longrightarrow> uploaded_networks (fst (publish_networks env ns)) = ns"
  by (induction ns) (auto split: sum.splits option.splits prod.splits)

lemma publish_collections_all:
  "snd (publish_collections env cs) = None \<Longrightarrow>
   uploaded_collections (fst (publish_collections env cs)) = cs"
  by (induction cs) (auto split: option.splits prod.splits)

lemma uploaded_collections_prints [simp]:
  "uploaded_collections (map Print out @ tr) = uploaded_collections tr"
  by (induction out) simp_all

lemma sync_biobanks_uploads:
  assumes "requests_post env Biobanks_query = Inr response" "status_code response = 200"
    "json_body response = Inr json_data" "populate_biobank_from_json env json_data = Inr bs"
  shows "uploaded_biobanks (fst (sync_biobanks env)) = uploaded_biobanks (fst (publish_biobanks env bs))"
    and "snd (sync_biobanks env) = snd (publish_biobanks env bs)"
  using assms by (simp_all add: sync_biobanks_def split: prod.splits)

lemma sync_networks_uploads:
  assumes "requests_post env Networks_query = Inr response" "status_code response = 200"
    "json_body response = Inr json_data" "populate_network_from_json env json_data = Inr ns"
  shows "uploaded_networks (fst (sync_networks env)) = uploaded_networks (fst (publish_networks env ns))"
    and "snd (sync_networks env) = snd (publish_networks env ns)"
  using assms by (simp_all add: sync_networks_def split: prod.splits)

lemma sync_collections_uploads:
  assumes "requests_post env Collections_query = Inr response" "status_code response = 200"
    "json_body response = Inr json_data"
    "snd (populate_collection_from_json env json_data) = Inr cs"
  shows "uploaded_collections (fst (sync_collections env)) =
      uploaded_collections (fst (publish_collections env cs))"
    and "snd (sync_collections env) = snd (publish_collections env cs)"
  using assms by (auto simp: sync_collections_def split: prod.splits sum.splits)

text \<open>
  C9. A builder returns its entities in the order of the source records: the biobank and
  network builders one entity per record, the collection builder the collections of the
  records it does not skip. A sync function hands the entities of that list to the
  upload operation in the same order: the uploads are an initial part of the list, and
  all of it when the run ends without an exception.
\<close>

theorem order_preserved:
  "(source_records ''Biobanks'' json_data = Inr rs \<and>
    populate_biobank_from_json env json_data = Inr bs \<longrightarrow>
      list_all2 (\<lambda>r b. biobank_from_record env r = Inr b) rs bs) \<and>
   (source_records ''Networks'' json_data = Inr rs \<and>
    populate_network_from_json env json_data = Inr ns \<longrightarrow>
      list_all2 (\<lambda>r n. network_from_record env r = Inr n) rs ns) \<and>
   (source_records ''Collections'' json_data = Inr rs \<and>
    snd (populate_collection_from_json env json_data) = Inr cs \<longrightarrow>
      cs = List.map_filter (collection_of_record env) rs) \<and>
   (requests_post env Biobanks_query = Inr response \<and> status_code response = 200 \<and>
    json_body response = Inr json_data \<and> populate_biobank_from_json env json_data = Inr bs \<longrightarrow>
      prefix (uploaded_biobanks (fst (sync_biobanks env))) bs \<and>
      (snd (sync_biobanks env) = None \<longrightarrow> uploaded_biobanks (fst (sync_biobanks env)) = bs)) \<and>
   (requests_post env Networks_query = Inr response \<and> status_code response = 200 \<and>
    json_body response = Inr json_data \<and> populate_network_from_json env json_data = Inr ns \<longrightarrow>
      prefix (uploaded_networks (fst (sync_networks env))) ns \<and>
      (snd (sync_networks env) = None \<longrightarrow> uploaded_networks (fst (sync_networks env)) = ns)) \<and>
   (requests_post env Collections_query = Inr response \<and> status_code response = 200 \<and>
    json_body response = Inr json_data \<and>
    snd (populate_collection_from_json env json_data) = Inr cs \<longrightarrow>
      prefix (uploaded_collections (fst (sync_collections env))) cs \<and>
      (snd (sync_collections env) = None \<longrightarrow>
         uploaded_collections (fst (sync_collections env)) = cs))"
proof (intro conjI impI; (elim conjE)?)
  assume "source_records ''Biobanks'' json_data = Inr rs"
    and "populate_biobank_from_json env json_data = Inr bs"
  then show "list_all2 (\<lambda>r b. biobank_from_record env r = Inr b) rs bs"
    by (simp add: populate_biobank_from_json_def biobanks_loop_all2)
next
  assume "source_records ''Networks'' json_data = Inr rs"
    and "populate_network_from_json env json_data = Inr ns"
  then show "list_all2 (\<lambda>r n. network_from_record env r = Inr n) rs ns"
    by (simp add: populate_network_from_json_def networks_loop_all2)
next
  assume "source_records ''Collections'' json_data = Inr rs"
    and "snd (populate_collection_from_json env json_data) = Inr cs"
  then show "cs = List.map_filter (collection_of_record env) rs"
    by (simp add: populate_collection_from_json_def collections_loop_map_filter)
next
  assume "requests_post env Biobanks_query = Inr response" "status_code response = 200"
    "json_body response = Inr json_data" "populate_biobank_from_json env json_data = Inr bs"
  then show "prefix (uploaded_biobanks (fst (sync_biobanks env))) bs"
    by (simp add: sync_biobanks_uploads publish_biobanks_prefix)
next
  assume "requests_post env Biobanks_query = Inr response" "status_code response = 200"
    "json_body response = Inr json_data" "populate_biobank_from_json env json_data = Inr bs"
    "snd (sync_biobanks env) = None"
  then show "uploaded_biobanks (fst (sync_biobanks env)) = bs"
    by (simp add: sync_biobanks_uploads publish_biobanks_all)
next
  assume "requests_post env Networks_query = Inr response" "status_code response = 200"
    "json_body response = Inr json_data" "populate_network_from_json env json_data = Inr ns"
  then show "prefix (uploaded_networks (fst (sync_networks env))) ns"
    by (simp add: sync_networks_uploads publish_networks_prefix)
next
  assume "requests_post env Networks_query = Inr response" "status_code response = 200"
    "json_body response = Inr json_data" "populate_network_from_json env json_data = Inr ns"
    "snd (sync_networks env) = None"
  then show "uploaded_networks (fst (sync_networks env)) = ns"
    by (simp add: sync_networks_uploads publish_networks_all)
next
  assume "requests_post env Collections_query = Inr response" "status_code response = 200"
    "json_body response = Inr json_data"
    "snd (populate_collection_from_json env json_data) = Inr cs"
  then show "prefix (uploaded_collections (fst (sync_collections env))) cs"
    by (simp add: sync_collections_uploads publish_collections_prefix)
next
  assume "requests_post env Collections_query = Inr response" "status_code response = 200"
    "json_body response = Inr json_data"
    "snd (populate_collection_from_json env json_data) = Inr cs"
    "snd (sync_collections env) = None"
  then show "uploaded_collections (fst (sync_collections env)) = cs"
    by (simp add: sync_collections_uploads publish_collections_all)
qed


theorem order_preserved_witness:
  "map b_identifier (uploaded_biobanks
      (fst (sync_biobanks (strict_env (reply 200 [] directory_payload)))))
     = [PStr ''b1'', PStr ''b2'']
   \<and> map n_identifier (uploaded_networks
      (fst (sync_networks (strict_env (reply 200 [] directory_payload)))))
     = [PStr ''n1'', PStr ''n2'']
   \<and> map c_identifier (uploaded_collections
      (fst (sync_collections (strict_env (reply 200 [] directory_payload)))))
     = [PStr ''c1'', PStr ''c3'']
   \<and> map (map_option c_identifier \<circ> collection_of_record (strict_env (reply 200 [] directory_payload)))
        [PDict [(''id'', PStr ''c1'')], PDict [(''name'', PStr ''no id'')],
         PDict [(''id'', PStr ''c3'')]]
     = [Some (PStr ''c1''), None, Some (PStr ''c3'')]"
proof -
  let ?E = "strict_env (reply 200 [] directory_payload)"
  let ?resp = "\<lparr> status_code = 200, text_body = [], json_body = Inr directory_payload \<rparr>"
  note defs = populate_biobank_from_json_def populate_network_from_json_def
    populate_collection_from_json_def source_records_def directory_payload_def
    biobank_from_record_def biobank_fields_def fetch_quality_names_def
    network_from_record_def network_fields_def collaboration_topics_def
    collection_from_record_def collection_fields_def collection_of_record_def
    strict_env_def reply_def dict_get_def Let_def
  have post: "requests_post ?E q = Inr ?resp" for q
    by (simp add: strict_env_def reply_def)
  have status: "status_code ?resp = 200" and body: "json_body ?resp = Inr directory_payload"
    by simp_all
  obtain bs where bs: "populate_biobank_from_json ?E directory_payload = Inr bs"
    and bids: "map b_identifier bs = [PStr ''b1'', PStr ''b2'']"
    by (simp add: defs)
  obtain ns where ns: "populate_network_from_json ?E directory_payload = Inr ns"
    and nids: "map n_identifier ns = [PStr ''n1'', PStr ''n2'']"
    by (simp add: defs)
  obtain cs where cs: "snd (populate_collection_from_json ?E directory_payload) = Inr cs"
    and cids: "map c_identifier cs = [PStr ''c1'', PStr ''c3'']"
    by (simp add: defs)
  have rs: "source_records ''Collections'' directory_payload
      = Inr [PDict [(''id'', PStr ''c1'')], PDict [(''name'', PStr ''no id'')],
             PDict [(''id'', PStr ''c3'')]]" (is "_ = Inr ?rs")
    by (simp add: defs)
  have ended: "snd (sync_biobanks ?E) = None" "snd (sync_networks ?E) = None"
    "snd (sync_collections ?E) = None"
    by (simp_all add: sync_biobanks_def sync_networks_def sync_collections_def defs
        split: prod.splits)
  note inst = order_preserved [where env = ?E and json_data = directory_payload
      and response = ?resp and bs = bs and ns = ns and cs = cs and rs = ?rs]
  from inst post status body bs ended have "uploaded_biobanks (fst (sync_biobanks ?E)) = bs"
    by blast
  moreover from inst post status body ns ended
  have "uploaded_networks (fst (sync_networks ?E)) = ns"
    by blast
  moreover from inst post status body cs ended
  have "uploaded_collections (fst (sync_collections ?E)) = cs"
    by blast
  moreover from inst rs cs have "cs = List.map_filter (collection_of_record ?E) ?rs"
    by blast
  moreover have "map (map_option c_identifier \<circ> collection_of_record ?E) ?rs
      = [Some (PStr ''c1''), None, Some (PStr ''c3'')]"
    by (simp add: defs)
  ultimately show ?thesis
    using bids nids cids by simp
qed


section \<open>What reaches the upload operations\<close>

lemma biobanks_loop_accepted:
  "biobanks_loop env rs = Inr bs \<Longrightarrow> list_all (\<lambda>b. Biobank_init env b = None) bs"
proof (induction rs arbitrary: bs)
  case Nil
  then show ?case by simp
next
  case (Cons r rs)
  then show ?case
    by (auto simp: ebind_eq_Inr biobank_from_record_fields)
qed

lemma networks_loop_accepted:
  "networks_loop env rs = Inr ns \<Longrightarrow> list_all (\<lambda>n. Network_init env n = None) ns"
proof (induction rs arbitrary: ns)
  case Nil
  then show ?case by simp
next
  case (Cons r rs)
  then show ?case
    by (auto simp: ebind_eq_Inr network_from_record_fields)
qed

lemma list_all_map_filter:
  "(\<And>x y. f x = Some y \<Longrightarrow> P y) \<Longrightarrow> list_all P (List.map_filter f xs)"
  by (induction xs) (auto simp: map_filter_simps split: option.splits)

lemma collections_loop_accepted:
  assumes "snd (collections_loop env rs) = Inr cs"
  shows "list_all (\<lambda>c. Collection_init env c = None) cs"
proof -
  have "cs = List.map_filter (collection_of_record env) rs"
    using assms by (rule collections_loop_map_filter)
  moreover have "list_all (\<lambda>c. Collection_init env c = None)
      (List.map_filter (collection_of_record env) rs)"
    by (rule list_all_map_filter) (simp add: collection_of_record_fields)
  ultimately show ?thesis
    by simp
qed

lemma uploaded_collections_only_prints [simp]: "uploaded_collections (map Print out) = []"
  by (induction out) simp_all

lemma list_all_prefix: "prefix xs ys \<Longrightarrow> list_all P ys \<Longrightarrow> list_all P xs"
  by (auto simp: list_all_iff dest: set_mono_prefix)

lemma sync_biobanks_accepted:
  "list_all (\<lambda>b. Biobank_init env b = None) (uploaded_biobanks (fst (sync_biobanks env)))"
proof (cases "requests_post env Biobanks_query")
  case (Inl e)
  then show ?thesis by (simp add: sync_biobanks_def)
next
  case post: (Inr response)
  show ?thesis
  proof (cases "status_code response = 200")
    case False
    with post show ?thesis by (simp add: sync_biobanks_def)
  next
    case ok: True
    show ?thesis
    proof (cases "json_body response")
      case (Inl e)
      with post ok show ?thesis by (simp add: sync_biobanks_def)
    next
      case body: (Inr json_data)
      show ?thesis
      proof (cases "populate_biobank_from_json env json_data")
        case (Inl e)
        with post ok body show ?thesis by (simp add: sync_biobanks_def)
      next
        case (Inr bs)
        then have "list_all (\<lambda>b. Biobank_init env b = None) bs"
          by (auto simp: populate_biobank_from_json_def ebind_eq_Inr
              dest: biobanks_loop_accepted)
        with publish_biobanks_prefix [of env bs] sync_biobanks_uploads(1) [OF post ok body Inr]
        show ?thesis
          by (simp add: list_all_prefix)
      qed
    qed
  qed
qed

lemma sync_networks_accepted:
  "list_all (\<lambda>n. Network_init env n = None) (uploaded_networks (fst (sync_networks env)))"
proof (cases "requests_post env Networks_query")
  case (Inl e)
  then show ?thesis by (simp add: sync_networks_def)
next
  case post: (Inr response)
  show ?thesis
  proof (cases "status_code response = 200")
    case False
    with post show ?thesis by (simp add: sync_networks_def)
  next
    case ok: True
    show ?thesis
    proof (cases "json_body response")
      case (Inl e)
      with post ok show ?thesis by (simp add: sync_networks_def)
    next
      case body: (Inr json_data)
      show ?thesis
      proof (cases "populate_network_from_json env json_data")
        case (Inl e)
        with post ok body show ?thesis by (simp add: sync_networks_def)
      next
        case (Inr ns)
        then have "list_all (\<lambda>n. Network_init env n = None) ns"
          by (auto simp: populate_network_from_json_def ebind_eq_Inr
              dest: networks_loop_accepted)
        with publish_networks_prefix [of env ns] sync_networks_uploads(1) [OF post ok body Inr]
        show ?thesis
          by (simp add: list_all_prefix)
      qed
    qed
  qed
qed

lemma sync_collections_accepted:
  "list_all (\<lambda>c. Collection_init env c = None)
     (uploaded_collections (fst (sync_collections env)))"
proof (cases "requests_post env Collections_query")
  case (Inl e)
  then show ?thesis by (simp add: sync_collections_def)
next
  case post: (Inr response)
  show ?thesis
  proof (cases "status_code response = 200")
    case False
    with post show ?thesis by (simp add: sync_collections_def)
  next
    case ok: True
    show ?thesis
    proof (cases "json_body response")
      case (Inl e)
      with post ok show ?thesis by (simp add: sync_collections_def)
    next
      case body: (Inr json_data)
      show ?thesis
      proof (cases "snd (populate_collection_from_json env json_data)")
        case (Inl e)
        with post ok body show ?thesis
          by (auto simp: sync_collections_def split: prod.splits)
      next
        case (Inr cs)
        then have "list_all (\<lambda>c. Collection_init env c = None) cs"
          by (auto simp: populate_collection_from_json_def split: sum.splits
              dest: collections_loop_accepted)
        with publish_collections_prefix [of env cs]
          sync_collections_uploads(1) [OF post ok body Inr]
        show ?thesis
          by (simp add: list_all_prefix)
      qed
    qed
  qed
qed

lemma biobank_fields_identifier:
  "biobank_fields (PDict kvs) = Inr b \<Longrightarrow> b_identifier b = dict_get kvs ''id'' (PStr '''')"
  by (auto simp: biobank_fields_def ebind_eq_Inr)

lemma network_fields_identifier:
  "network_fields (PDict kvs) = Inr n \<Longrightarrow> n_identifier n = dict_get kvs ''id'' (PStr '''')"
  by (auto simp: network_fields_def ebind_eq_Inr Let_def)

lemma collection_fields_identifier:
  "collection_fields env (PDict kvs) = Inr c \<Longrightarrow> c_identifier c = dict_get kvs ''id'' (PStr '''')"
  by (auto simp: collection_fields_def ebind_eq_Inr)

lemma list_all_mono: "list_all P xs \<Longrightarrow> (\<And>x. P x \<Longrightarrow> Q x) \<Longrightarrow> list_all Q xs"
  by (auto simp: list_all_iff)

text \<open>
  C7, as the code has it. The core makes no check of the identifier: the identifier of an
  entity is the value of the record's \<^verbatim>\<open>id\<close>, and the empty string when \<^verbatim>\<open>id\<close> is absent.
  Every entity handed to an upload operation was accepted by the constructor of the
  model library; so the published identifiers are non-empty where that constructor
  rejects an empty identifier.
\<close>

theorem published_entities_accepted:
  "list_all (\<lambda>b. Biobank_init env b = None) (uploaded_biobanks (fst (sync_biobanks env))) \<and>
   list_all (\<lambda>n. Network_init env n = None) (uploaded_networks (fst (sync_networks env))) \<and>
   list_all (\<lambda>c. Collection_init env c = None)
     (uploaded_collections (fst (sync_collections env))) \<and>
   ((\<forall>b. b_identifier b = PStr '''' \<longrightarrow> Biobank_init env b \<noteq> None) \<longrightarrow>
      list_all (\<lambda>b. b_identifier b \<noteq> PStr '''') (uploaded_biobanks (fst (sync_biobanks env)))) \<and>
   ((\<forall>n. n_identifier n = PStr '''' \<longrightarrow> Network_init env n \<noteq> None) \<longrightarrow>
      list_all (\<lambda>n. n_identifier n \<noteq> PStr '''') (uploaded_networks (fst (sync_networks env)))) \<and>
   ((\<forall>c. c_identifier c = PStr '''' \<longrightarrow> Collection_init env c \<noteq> None) \<longrightarrow>
      list_all (\<lambda>c. c_identifier c \<noteq> PStr '''')
        (uploaded_collections (fst (sync_collections env)))) \<and>
   (biobank_fields (PDict kvs) = Inr b \<longrightarrow> b_identifier b = dict_get kvs ''id'' (PStr '''')) \<and>
   (network_fields (PDict kvs) = Inr n \<longrightarrow> n_identifier n = dict_get kvs ''id'' (PStr '''')) \<and>
   (collection_fields env (PDict kvs) = Inr c \<longrightarrow>
      c_identifier c = dict_get kvs ''id'' (PStr ''''))"
proof (intro conjI impI)
  show "list_all (\<lambda>b. Biobank_init env b = None) (uploaded_biobanks (fst (sync_biobanks env)))"
    by (rule sync_biobanks_accepted)
  show "list_all (\<lambda>n. Network_init env n = None) (uploaded_networks (fst (sync_networks env)))"
    by (rule sync_networks_accepted)
  show "list_all (\<lambda>c. Collection_init env c = None)
      (uploaded_collections (fst (sync_collections env)))"
    by (rule sync_collections_accepted)
next
  assume "\<forall>b. b_identifier b = PStr '''' \<longrightarrow> Biobank_init env b \<noteq> None"
  then show "list_all (\<lambda>b. b_identifier b \<noteq> PStr '''')
      (uploaded_biobanks (fst (sync_biobanks env)))"
    by (intro list_all_mono [OF sync_biobanks_accepted]) auto
next
  assume "\<forall>n. n_identifier n = PStr '''' \<longrightarrow> Network_init env n \<noteq> None"
  then show "list_all (\<lambda>n. n_identifier n \<noteq> PStr '''')
      (uploaded_networks (fst (sync_networks env)))"
    by (intro list_all_mono [OF sync_networks_accepted]) auto
next
  assume "\<forall>c. c_identifier c = PStr '''' \<longrightarrow> Collection_init env c \<noteq> None"
  then show "list_all (\<lambda>c. c_identifier c \<noteq> PStr '''')
      (uploaded_collections (fst (sync_collections env)))"
    by (intro list_all_mono [OF sync_collections_accepted]) auto
next
  assume "biobank_fields (PDict kvs) = Inr b"
  then show "b_identifier b = dict_get kvs ''id'' (PStr '''')"
    by (rule biobank_fields_identifier)
next
  assume "network_fields (PDict kvs) = Inr n"
  then show "n_identifier n = dict_get kvs ''id'' (PStr '''')"
    by (rule network_fields_identifier)
next
  assume "collection_fields env (PDict kvs) = Inr c"
  then show "c_identifier c = dict_get kvs ''id'' (PStr '''')"
    by (rule collection_fields_identifier)
qed

theorem published_entities_accepted_witness:
  "list_all (\<lambda>b. b_identifier b \<noteq> PStr '''')
     (uploaded_biobanks (fst (sync_biobanks (strict_env (reply 200 [] directory_payload)))))
   \<and> list_all (\<lambda>n. n_identifier n \<noteq> PStr '''')
     (uploaded_networks (fst (sync_networks (strict_env (reply 200 [] directory_payload)))))
   \<and> list_all (\<lambda>c. c_identifier c \<noteq> PStr '''')
     (uploaded_collections (fst (sync_collections (strict_env (reply 200 [] directory_payload)))))
   \<and> (case biobank_fields (PDict [(''name'', PStr ''Graz'')]) of
         Inl e \<Rightarrow> PNone | Inr b \<Rightarrow> b_identifier b) = PStr ''''
   \<and> (case network_fields (PDict [(''id'', PStr ''n1'')]) of
         Inl e \<Rightarrow> PNone | Inr n \<Rightarrow> n_identifier n) = PStr ''n1''
   \<and> (case collection_fields (strict_env (reply 200 [] directory_payload))
              (PDict [(''id'', PInt 7)]) of
         Inl e \<Rightarrow> PNone | Inr c \<Rightarrow> c_identifier c) = PInt 7"
proof -
  let ?E = "strict_env (reply 200 [] directory_payload)"
  have strict:
    "\<forall>b. b_identifier b = PStr '''' \<longrightarrow> Biobank_init ?E b \<noteq> None"
    "\<forall>n. n_identifier n = PStr '''' \<longrightarrow> Network_init ?E n \<noteq> None"
    "\<forall>c. c_identifier c = PStr '''' \<longrightarrow> Collection_init ?E c \<noteq> None"
    by (simp_all add: strict_env_def)
  obtain b where b: "biobank_fields (PDict [(''name'', PStr ''Graz'')]) = Inr b"
    by (simp add: biobank_fields_def fetch_quality_names_def dict_get_def)
  obtain n where n: "network_fields (PDict [(''id'', PStr ''n1'')]) = Inr n"
    by (simp add: network_fields_def collaboration_topics_def dict_get_def Let_def)
  obtain c where c: "collection_fields ?E (PDict [(''id'', PInt 7)]) = Inr c"
    by (simp add: collection_fields_def dict_get_def)
  from published_entities_accepted [of ?E "[(''name'', PStr ''Graz'')]" b n c] b
  have b_id: "b_identifier b = PStr ''''"
    by (simp add: dict_get_def)
  from published_entities_accepted [of ?E "[(''id'', PStr ''n1'')]" b n c] n
  have n_id: "n_identifier n = PStr ''n1''"
    by (simp add: dict_get_def)
  from published_entities_accepted [of ?E "[(''id'', PInt 7)]" b n c] c
  have c_id: "c_identifier c = PInt 7"
    by (simp add: dict_get_def)
  from published_entities_accepted [of ?E "[]" b n c] strict
  have "list_all (\<lambda>b. b_identifier b \<noteq> PStr '''') (uploaded_biobanks (fst (sync_biobanks ?E)))"
    and "list_all (\<lambda>n. n_identifier n \<noteq> PStr '''') (uploaded_networks (fst (sync_networks ?E)))"
    and "list_all (\<lambda>c. c_identifier c \<noteq> PStr '''')
      (uploaded_collections (fst (sync_collections ?E)))"
    by blast+
  with b n c b_id n_id c_id show ?thesis
    by simp
qed

text \<open>
  C7 as stated fails: with a library whose constructors accept an empty identifier,
  a biobank record without \<^verbatim>\<open>id\<close> is published with the identifier \<^verbatim>\<open>""\<close>.
\<close>

theorem empty_identifier_published:
  "map b_identifier (uploaded_biobanks (fst (sync_biobanks
      (lax_env (reply 200 [] (payload ''Biobanks'' [PDict [(''name'', PStr ''Graz'')]]))))))
   = [PStr '''']"
  by (simp add: sync_biobanks_def populate_biobank_from_json_def source_records_def
      payload_def biobank_from_record_def biobank_fields_def fetch_quality_names_def
      lax_env_def strict_env_def reply_def dict_get_def)


section \<open>Field extraction\<close>

lemma quality_names_loop_mappings:
  assumes "list_all (\<lambda>item. \<exists>q. dict_get item ''quality_standard'' (PDict []) = PDict q) items"
  shows "quality_names_loop (map PDict items) =
    Inr (filter truthy
          (map (\<lambda>item. case dict_get item ''quality_standard'' (PDict []) of
                          PDict q \<Rightarrow> dict_get q ''name'' PNone
                        | _ \<Rightarrow> PNone) items))"
  using assms
proof (induction items)
  case Nil
  show ?case by simp
next
  case (Cons item items)
  from Cons.prems obtain q where q: "dict_get item ''quality_standard'' (PDict []) = PDict q"
    by auto
  from Cons.prems have "list_all (\<lambda>item. \<exists>q. dict_get item ''quality_standard'' (PDict []) = PDict q) items"
    by simp
  then show ?case
    using q by (simp add: Cons.IH)
qed

lemma diagnosis_codes_of_mappings:
  "diagnosis_codes_of (map PDict ds) =
   Inr (filter truthy (map (\<lambda>d. dict_get d ''code'' PNone) ds))"
  by (induction ds) simp_all

lemma material_types_of_unnamed:
  "list_all (\<lambda>m. \<not> truthy (dict_get m ''name'' PNone)) ms \<Longrightarrow>
   material_types_of ST (map PDict ms) = Inr []"
  by (induction ms) simp_all

text \<open>
  C5, as the code has it. Take a source record that is a mapping in which every node on
  an extraction path, where present, has the shape the code reads. For the biobank
  builder: \<^verbatim>\<open>country\<close> and \<^verbatim>\<open>contact\<close> are mappings, \<^verbatim>\<open>quality\<close> is a list of mappings and
  the \<^verbatim>\<open>quality_standard\<close> of each is a mapping. For the network builder: \<^verbatim>\<open>contact\<close> is a
  mapping and \<^verbatim>\<open>common_network_elements\<close> is a string or false. For the collection builder:
  \<^verbatim>\<open>country\<close>, \<^verbatim>\<open>contact\<close> and \<^verbatim>\<open>biobank\<close> are mappings, \<^verbatim>\<open>sex\<close>, \<^verbatim>\<open>materials\<close> and
  \<^verbatim>\<open>diagnosis_available\<close> are lists of mappings, no materials entry has a name that is true, and
  \<^verbatim>\<open>Gender\<close> has the member \<^verbatim>\<open>UNKNOWN\<close>. Then the field extraction of that builder raises
  nothing, every field is the value at its path or, when the key is absent at either
  depth, the default declared for it, and an absent list-valued field gives the empty
  list. The name of a collection is the value at \<^verbatim>\<open>name\<close> when no entry of \<^verbatim>\<open>sex\<close> has a name
  other than \<^verbatim>\<open>None\<close>.
\<close>

theorem extraction_defaults:
  "(dict_get kvs ''country'' (PDict []) = PDict country \<and>
    dict_get kvs ''contact'' (PDict []) = PDict contact \<and>
    dict_get kvs ''quality'' (PList []) = PList (map PDict quality) \<and>
    list_all (\<lambda>item. \<exists>q. dict_get item ''quality_standard'' (PDict []) = PDict q) quality \<longrightarrow>
      biobank_fields (PDict kvs) = Inr \<lparr>
        b_identifier = dict_get kvs ''id'' (PStr ''''),
        b_name = dict_get kvs ''name'' (PStr ''''),
        b_alias = dict_get kvs ''acronym'' (PStr ''unknown''),
        b_country = dict_get country ''name'' (PStr ''''),
        b_contact_name = dict_get contact ''first_name'' (PStr ''unknown''),
        b_contact_surname = dict_get contact ''last_name'' (PStr ''unknown''),
        b_contact_email = dict_get contact ''email'' (PStr ''unknown''),
        b_quality__management_standards =
          filter truthy
            (map (\<lambda>item. case dict_get item ''quality_standard'' (PDict []) of
                            PDict q \<Rightarrow> dict_get q ''name'' PNone
                          | _ \<Rightarrow> PNone) quality),
        b_description = dict_get kvs ''description'' (PStr '''') \<rparr>) \<and>
   (dict_get kvs ''contact'' (PDict []) = PDict contact \<and>
    (dict_get kvs ''common_network_elements'' PNone = PStr s \<or>
     \<not> truthy (dict_get kvs ''common_network_elements'' PNone)) \<longrightarrow>
      network_fields (PDict kvs) = Inr \<lparr>
        n_identifier = dict_get kvs ''id'' (PStr ''''),
        n_name = dict_get kvs ''name'' (PStr ''''),
        n_managing_biobank_id = ''bbmri-eric:ID:AT_MUG'',
        n_contact_email = dict_get contact ''email'' (PStr ''unknown''),
        n_country = dict_get kvs ''national_node'' (PStr ''unknown''),
        n_juristic_person = dict_get kvs ''juridical_person'' (PStr ''unknown''),
        n_members_collections_ids = [],
        n_members_biobanks_ids = [],
        n_contact_name = dict_get contact ''first_name'' (PStr ''unknown''),
        n_contact_surname = dict_get contact ''last_name'' (PStr ''unknown''),
        n_common_collaboration_topics =
          (if truthy (dict_get kvs ''common_network_elements'' PNone)
           then str_split CHR '','' s else []),
        n_description = dict_get kvs ''description'' (PStr '''') \<rparr>) \<and>
   (dict_get kvs ''country'' (PDict []) = PDict country \<and>
    dict_get kvs ''contact'' (PDict []) = PDict contact \<and>
    dict_get kvs ''biobank'' (PDict []) = PDict managing \<and>
    dict_get kvs ''sex'' (PList []) = PList (map PDict sex) \<and>
    dict_get kvs ''materials'' (PList []) = PList (map PDict materials) \<and>
    list_all (\<lambda>m. \<not> truthy (dict_get m ''name'' PNone)) materials \<and>
    dict_get kvs ''diagnosis_available'' (PList []) = PList (map PDict diagnoses) \<and>
    ''UNKNOWN'' \<in> set (Gender env) \<longrightarrow>
      collection_fields env (PDict kvs) = Inr \<lparr>
        c_identifier = dict_get kvs ''id'' (PStr ''''),
        c_name =
          (case filter (\<lambda>g. dict_get g ''name'' PNone \<noteq> PNone) sex of
             [] \<Rightarrow> dict_get kvs ''name'' (PStr '''')
           | g # gs \<Rightarrow> dict_get (last (g # gs)) ''name'' PNone),
        c_managing_biobank_id = dict_get managing ''id'' (PStr ''''),
        c_contact_name = dict_get contact ''first_name'' (PStr ''unknown''),
        c_contact_surname = dict_get contact ''last_name'' (PStr ''unknown''),
        c_contact_email = dict_get contact ''email'' (PStr ''unknown''),
        c_country = dict_get country ''name'' (PStr ''unknown''),
        c_genders =
          map (\<lambda>g. Member ''UNKNOWN'') (filter (\<lambda>g. dict_get g ''name'' PNone \<noteq> PNone) sex),
        c_material_types = [],
        c_age_range_low = dict_get kvs ''age_low'' PNone,
        c_age_range_high = dict_get kvs ''age_high'' PNone,
        c_diagnoses = filter truthy (map (\<lambda>d. dict_get d ''code'' PNone) diagnoses),
        c_description = dict_get kvs ''description'' (PStr ''unknown'') \<rparr>)"
proof (intro conjI impI; elim conjE)
  assume "dict_get kvs ''country'' (PDict []) = PDict country"
    and "dict_get kvs ''contact'' (PDict []) = PDict contact"
    and "dict_get kvs ''quality'' (PList []) = PList (map PDict quality)"
    and "list_all (\<lambda>item. \<exists>q. dict_get item ''quality_standard'' (PDict []) = PDict q) quality"
  then show "biobank_fields (PDict kvs) = Inr \<lparr>
        b_identifier = dict_get kvs ''id'' (PStr ''''),
        b_name = dict_get kvs ''name'' (PStr ''''),
        b_alias = dict_get kvs ''acronym'' (PStr ''unknown''),
        b_country = dict_get country ''name'' (PStr ''''),
        b_contact_name = dict_get contact ''first_name'' (PStr ''unknown''),
        b_contact_surname = dict_get contact ''last_name'' (PStr ''unknown''),
        b_contact_email = dict_get contact ''email'' (PStr ''unknown''),
        b_quality__management_standards =
          filter truthy
            (map (\<lambda>item. case dict_get item ''quality_standard'' (PDict []) of
                            PDict q \<Rightarrow> dict_get q ''name'' PNone
                          | _ \<Rightarrow> PNone) quality),
        b_description = dict_get kvs ''description'' (PStr '''') \<rparr>"
    by (simp add: biobank_fields_def fetch_quality_names_def quality_names_loop_mappings)
next
  assume contact: "dict_get kvs ''contact'' (PDict []) = PDict contact"
    and topics: "dict_get kvs ''common_network_elements'' PNone = PStr s \<or>
      \<not> truthy (dict_get kvs ''common_network_elements'' PNone)"
  have "collaboration_topics (PDict kvs) =
      Inr (if truthy (dict_get kvs ''common_network_elements'' PNone)
           then str_split CHR '','' s else [])"
  proof (cases "truthy (dict_get kvs ''common_network_elements'' PNone)")
    case True
    with topics have "dict_get kvs ''common_network_elements'' PNone = PStr s"
      by simp
    with True show ?thesis
      by (cases "map_of kvs ''common_network_elements''")
        (simp_all add: collaboration_topics_def dict_get_def)
  next
    case False
    then show ?thesis
      by (simp add: collaboration_topics_falsy)
  qed
  with contact show "network_fields (PDict kvs) = Inr \<lparr>
        n_identifier = dict_get kvs ''id'' (PStr ''''),
        n_name = dict_get kvs ''name'' (PStr ''''),
        n_managing_biobank_id = ''bbmri-eric:ID:AT_MUG'',
        n_contact_email = dict_get contact ''email'' (PStr ''unknown''),
        n_country = dict_get kvs ''national_node'' (PStr ''unknown''),
        n_juristic_person = dict_get kvs ''juridical_person'' (PStr ''unknown''),
        n_members_collections_ids = [],
        n_members_biobanks_ids = [],
        n_contact_name = dict_get contact ''first_name'' (PStr ''unknown''),
        n_contact_surname = dict_get contact ''last_name'' (PStr ''unknown''),
        n_common_collaboration_topics =
          (if truthy (dict_get kvs ''common_network_elements'' PNone)
           then str_split CHR '','' s else []),
        n_description = dict_get kvs ''description'' (PStr '''') \<rparr>"
    by (simp add: network_fields_def Let_def)
next
  assume "dict_get kvs ''country'' (PDict []) = PDict country"
    and "dict_get kvs ''contact'' (PDict []) = PDict contact"
    and "dict_get kvs ''biobank'' (PDict []) = PDict managing"
    and "dict_get kvs ''sex'' (PList []) = PList (map PDict sex)"
    and "dict_get kvs ''materials'' (PList []) = PList (map PDict materials)"
    and "list_all (\<lambda>m. \<not> truthy (dict_get m ''name'' PNone)) materials"
    and "dict_get kvs ''diagnosis_available'' (PList []) = PList (map PDict diagnoses)"
    and "''UNKNOWN'' \<in> set (Gender env)"
  then show "collection_fields env (PDict kvs) = Inr \<lparr>
        c_identifier = dict_get kvs ''id'' (PStr ''''),
        c_name =
          (case filter (\<lambda>g. dict_get g ''name'' PNone \<noteq> PNone) sex of
             [] \<Rightarrow> dict_get kvs ''name'' (PStr '''')
           | g # gs \<Rightarrow> dict_get (last (g # gs)) ''name'' PNone),
        c_managing_biobank_id = dict_get managing ''id'' (PStr ''''),
        c_contact_name = dict_get contact ''first_name'' (PStr ''unknown''),
        c_contact_surname = dict_get contact ''last_name'' (PStr ''unknown''),
        c_contact_email = dict_get contact ''email'' (PStr ''unknown''),
        c_country = dict_get country ''name'' (PStr ''unknown''),
        c_genders =
          map (\<lambda>g. Member ''UNKNOWN'') (filter (\<lambda>g. dict_get g ''name'' PNone \<noteq> PNone) sex),
        c_material_types = [],
        c_age_range_low = dict_get kvs ''age_low'' PNone,
        c_age_range_high = dict_get kvs ''age_high'' PNone,
        c_diagnoses = filter truthy (map (\<lambda>d. dict_get d ''code'' PNone) diagnoses),
        c_description = dict_get kvs ''description'' (PStr ''unknown'') \<rparr>"
    by (simp add: collection_fields_def material_types_of_unnamed genders_of_dicts
        diagnosis_codes_of_mappings)
qed

theorem extraction_defaults_witness:
  "biobank_fields (PDict [(''id'', PStr ''b1''),
                          (''contact'', PDict [(''email'', PStr ''a@b.eu'')]),
                          (''quality'', PList
                             [PDict [(''quality_standard'', PDict [(''name'', PStr ''ISO'')])],
                              PDict []])])
     = Inr \<lparr> b_identifier = PStr ''b1'', b_name = PStr '''', b_alias = PStr ''unknown'',
             b_country = PStr '''', b_contact_name = PStr ''unknown'',
             b_contact_surname = PStr ''unknown'', b_contact_email = PStr ''a@b.eu'',
             b_quality__management_standards = [PStr ''ISO''], b_description = PStr '''' \<rparr>
   \<and> biobank_fields (PDict [])
     = Inr \<lparr> b_identifier = PStr '''', b_name = PStr '''', b_alias = PStr ''unknown'',
             b_country = PStr '''', b_contact_name = PStr ''unknown'',
             b_contact_surname = PStr ''unknown'', b_contact_email = PStr ''unknown'',
             b_quality__management_standards = [], b_description = PStr '''' \<rparr>
   \<and> network_fields (PDict [(''id'', PStr ''n1''), (''contact'', PDict []),
                          (''common_network_elements'', PStr ''a,b'')])
     = Inr \<lparr> n_identifier = PStr ''n1'', n_name = PStr '''',
             n_managing_biobank_id = ''bbmri-eric:ID:AT_MUG'',
             n_contact_email = PStr ''unknown'', n_country = PStr ''unknown'',
             n_juristic_person = PStr ''unknown'', n_members_collections_ids = [],
             n_members_biobanks_ids = [], n_contact_name = PStr ''unknown'',
             n_contact_surname = PStr ''unknown'',
             n_common_collaboration_topics = [''a'', ''b''], n_description = PStr '''' \<rparr>
   \<and> network_fields (PDict [])
     = Inr \<lparr> n_identifier = PStr '''', n_name = PStr '''',
             n_managing_biobank_id = ''bbmri-eric:ID:AT_MUG'',
             n_contact_email = PStr ''unknown'', n_country = PStr ''unknown'',
             n_juristic_person = PStr ''unknown'', n_members_collections_ids = [],
             n_members_biobanks_ids = [], n_contact_name = PStr ''unknown'',
             n_contact_surname = PStr ''unknown'', n_common_collaboration_topics = [],
             n_description = PStr '''' \<rparr>
   \<and> collection_fields (lax_env (reply 200 [] PNone))
        (PDict [(''name'', PStr ''Cohort''), (''age_low'', PInt 0),
                (''biobank'', PDict [(''id'', PStr ''b1'')]),
                (''sex'', PList [PDict [(''name'', PNone)], PDict []]),
                (''materials'', PList [PDict []]),
                (''diagnosis_available'', PList [PDict [(''code'', PStr ''C50'')], PDict []])])
     = Inr \<lparr> c_identifier = PStr '''', c_name = PStr ''Cohort'',
             c_managing_biobank_id = PStr ''b1'', c_contact_name = PStr ''unknown'',
             c_contact_surname = PStr ''unknown'', c_contact_email = PStr ''unknown'',
             c_country = PStr ''unknown'', c_genders = [], c_material_types = [],
             c_age_range_low = PInt 0, c_age_range_high = PNone,
             c_diagnoses = [PStr ''C50''], c_description = PStr ''unknown'' \<rparr>
   \<and> collection_fields (lax_env (reply 200 [] PNone)) (PDict [])
     = Inr \<lparr> c_identifier = PStr '''', c_name = PStr '''',
             c_managing_biobank_id = PStr '''', c_contact_name = PStr ''unknown'',
             c_contact_surname = PStr ''unknown'', c_contact_email = PStr ''unknown'',
             c_country = PStr ''unknown'', c_genders = [], c_material_types = [],
             c_age_range_low = PNone, c_age_range_high = PNone, c_diagnoses = [],
             c_description = PStr ''unknown'' \<rparr>"
proof -
  let ?env = "lax_env (reply 200 [] PNone)"
  let ?b = "[(''id'', PStr ''b1''), (''contact'', PDict [(''email'', PStr ''a@b.eu'')]),
             (''quality'', PList
                [PDict [(''quality_standard'', PDict [(''name'', PStr ''ISO'')])], PDict []])]"
  let ?n = "[(''id'', PStr ''n1''), (''contact'', PDict []),
             (''common_network_elements'', PStr ''a,b'')]"
  let ?c = "[(''name'', PStr ''Cohort''), (''age_low'', PInt 0),
             (''biobank'', PDict [(''id'', PStr ''b1'')]),
             (''sex'', PList [PDict [(''name'', PNone)], PDict []]),
             (''materials'', PList [PDict []]),
             (''diagnosis_available'', PList [PDict [(''code'', PStr ''C50'')], PDict []])]"
  have unknown: "''UNKNOWN'' \<in> set (Gender ?env)"
    by (simp add: lax_env_def strict_env_def)
  have b1: "biobank_fields (PDict ?b)
      = Inr \<lparr> b_identifier = PStr ''b1'', b_name = PStr '''', b_alias = PStr ''unknown'',
             b_country = PStr '''', b_contact_name = PStr ''unknown'',
             b_contact_surname = PStr ''unknown'', b_contact_email = PStr ''a@b.eu'',
             b_quality__management_standards = [PStr ''ISO''], b_description = PStr '''' \<rparr>"
    using extraction_defaults [where kvs = ?b and country = "[]"
        and contact = "[(''email'', PStr ''a@b.eu'')]"
        and quality = "[[(''quality_standard'', PDict [(''name'', PStr ''ISO'')])], []]",
        THEN conjunct1]
    by (simp add: dict_get_def)
  have b0: "biobank_fields (PDict [])
      = Inr \<lparr> b_identifier = PStr '''', b_name = PStr '''', b_alias = PStr ''unknown'',
             b_country = PStr '''', b_contact_name = PStr ''unknown'',
             b_contact_surname = PStr ''unknown'', b_contact_email = PStr ''unknown'',
             b_quality__management_standards = [], b_description = PStr '''' \<rparr>"
    using extraction_defaults [where kvs = "[]" and country = "[]" and contact = "[]"
        and quality = "[]", THEN conjunct1]
    by (simp add: dict_get_def)
  have n1: "network_fields (PDict ?n)
      = Inr \<lparr> n_identifier = PStr ''n1'', n_name = PStr '''',
             n_managing_biobank_id = ''bbmri-eric:ID:AT_MUG'',
             n_contact_email = PStr ''unknown'', n_country = PStr ''unknown'',
             n_juristic_person = PStr ''unknown'', n_members_collections_ids = [],
             n_members_biobanks_ids = [], n_contact_name = PStr ''unknown'',
             n_contact_surname = PStr ''unknown'',
             n_common_collaboration_topics = [''a'', ''b''], n_description = PStr '''' \<rparr>"
    using extraction_defaults [where kvs = ?n and contact = "[]" and s = "''a,b''",
        THEN conjunct2, THEN conjunct1]
    by (simp add: dict_get_def)
  have n0: "network_fields (PDict [])
      = Inr \<lparr> n_identifier = PStr '''', n_name = PStr '''',
             n_managing_biobank_id = ''bbmri-eric:ID:AT_MUG'',
             n_contact_email = PStr ''unknown'', n_country = PStr ''unknown'',
             n_juristic_person = PStr ''unknown'', n_members_collections_ids = [],
             n_members_biobanks_ids = [], n_contact_name = PStr ''unknown'',
             n_contact_surname = PStr ''unknown'', n_common_collaboration_topics = [],
             n_description = PStr '''' \<rparr>"
    using extraction_defaults [where kvs = "[]" and contact = "[]" and s = "[]",
        THEN conjunct2, THEN conjunct1]
    by (simp add: dict_get_def)
  have c1: "collection_fields ?env (PDict ?c)
      = Inr \<lparr> c_identifier = PStr '''', c_name = PStr ''Cohort'',
             c_managing_biobank_id = PStr ''b1'', c_contact_name = PStr ''unknown'',
             c_contact_surname = PStr ''unknown'', c_contact_email = PStr ''unknown'',
             c_country = PStr ''unknown'', c_genders = [], c_material_types = [],
             c_age_range_low = PInt 0, c_age_range_high = PNone,
             c_diagnoses = [PStr ''C50''], c_description = PStr ''unknown'' \<rparr>"
    using extraction_defaults [where kvs = ?c and env = ?env and country = "[]"
        and contact = "[]" and managing = "[(''id'', PStr ''b1'')]"
        and sex = "[[(''name'', PNone)], []]" and materials = "[[]]"
        and diagnoses = "[[(''code'', PStr ''C50'')], []]",
        THEN conjunct2, THEN conjunct2] unknown
    by (simp add: dict_get_def)
  have c0: "collection_fields ?env (PDict [])
      = Inr \<lparr> c_identifier = PStr '''', c_name = PStr '''',
             c_managing_biobank_id = PStr '''', c_contact_name = PStr ''unknown'',
             c_contact_surname = PStr ''unknown'', c_contact_email = PStr ''unknown'',
             c_country = PStr ''unknown'', c_genders = [], c_material_types = [],
             c_age_range_low = PNone, c_age_range_high = PNone, c_diagnoses = [],
             c_description = PStr ''unknown'' \<rparr>"
    using extraction_defaults [where kvs = "[]" and env = ?env and country = "[]"
        and contact = "[]" and managing = "[]" and sex = "[]" and materials = "[]"
        and diagnoses = "[]", THEN conjunct2, THEN conjunct2] unknown
    by (simp add: dict_get_def)
  from b1 b0 n1 n0 c1 c0 show ?thesis
    by (intro conjI)
qed

text \<open>
  C5 as stated fails where a node on an extraction path is present and is not a mapping:
  a biobank record with \<^verbatim>\<open>"country": null\<close> and a collection record whose \<^verbatim>\<open>contact\<close> is a
  string make the builder raise \<^verbatim>\<open>AttributeError\<close> instead of returning the default.
\<close>

theorem non_mapping_node_raises:
  "populate_biobank_from_json (lax_env (reply 200 [] PNone))
     (payload ''Biobanks'' [PDict [(''id'', PStr ''b1''), (''country'', PNone)]])
     = Inl AttributeError
   \<and> populate_collection_from_json (lax_env (reply 200 [] PNone))
     (payload ''Collections'' [PDict [(''id'', PStr ''c1''), (''contact'', PStr ''n/a'')]])
     = ([], Inl AttributeError)"
  by (simp add: populate_biobank_from_json_def populate_collection_from_json_def
      source_records_def payload_def biobank_from_record_def biobank_fields_def
      collection_from_record_def collection_fields_def dict_get_def)


section \<open>Records that fail\<close>

text \<open>
  C2. Only \<open>populate_collection_from_json\<close> catches the constructor's \<^verbatim>\<open>ValueError\<close>. On
  two records of which the first has no \<^verbatim>\<open>id\<close>, with constructors that reject an empty
  identifier, the network and the biobank builder raise and return nothing, where the
  collection builder skips the first record and returns the second.
\<close>

theorem failed_record_aborts_network_and_biobank_builders:
  "populate_network_from_json (strict_env (reply 200 [] PNone))
     (payload ''Networks'' [PDict [(''name'', PStr ''no id'')], PDict [(''id'', PStr ''n2'')]])
     = Inl (ValueError ''empty id'')
   \<and> populate_biobank_from_json (strict_env (reply 200 [] PNone))
     (payload ''Biobanks'' [PDict [(''name'', PStr ''no id'')], PDict [(''id'', PStr ''b2'')]])
     = Inl (ValueError ''empty id'')
   \<and> populate_collection_from_json (strict_env (reply 200 [] PNone))
     (payload ''Collections'' [PDict [(''name'', PStr ''no id'')], PDict [(''id'', PStr ''c2'')]])
     = ([''Error creating Collection: empty id''],
        Inr [\<lparr> c_identifier = PStr ''c2'', c_name = PStr '''',
               c_managing_biobank_id = PStr '''', c_contact_name = PStr ''unknown'',
               c_contact_surname = PStr ''unknown'', c_contact_email = PStr ''unknown'',
               c_country = PStr ''unknown'', c_genders = [], c_material_types = [],
               c_age_range_low = PNone, c_age_range_high = PNone, c_diagnoses = [],
               c_description = PStr ''unknown'' \<rparr>])"
  by (simp add: populate_network_from_json_def populate_biobank_from_json_def
      populate_collection_from_json_def source_records_def payload_def
      network_from_record_def network_fields_def collaboration_topics_def
      biobank_from_record_def biobank_fields_def fetch_quality_names_def
      collection_from_record_def collection_fields_def
      strict_env_def dict_get_def Let_def)

text \<open>
  C3. A materials token that is no member of the enumeration is a \<^verbatim>\<open>KeyError\<close> raised at
  line 32, outside the \<^verbatim>\<open>try\<close> block, which catches \<^verbatim>\<open>ValueError\<close> only: the exception
  leaves the builder, and the valid second record is not built either.
\<close>

theorem unmapped_material_aborts_collection_builder:
  "populate_collection_from_json (strict_env (reply 200 [] PNone))
     (payload ''Collections''
        [PDict [(''id'', PStr ''c1''), (''materials'', PList [PDict [(''name'', PStr ''SERUM'')]])],
         PDict [(''id'', PStr ''c2'')]])
   = ([], Inl KeyError)"
  by (simp add: populate_collection_from_json_def source_records_def payload_def
      collection_from_record_def collection_fields_def strict_env_def dict_get_def)

text \<open>
  C4. On the example record no collection is built, whatever the library is. When
  \<^verbatim>\<open>PLASMA\<close> is no member of \<^verbatim>\<open>StorageTemperature\<close>, line 32 raises \<^verbatim>\<open>KeyError\<close> (as does
  line 42 when \<^verbatim>\<open>Gender\<close> has no member \<^verbatim>\<open>UNKNOWN\<close>); otherwise line 53 calls \<^verbatim>\<open>get\<close> on
  the enumeration member and raises \<^verbatim>\<open>AttributeError\<close>.
\<close>

theorem plasma_record_raises:
  "populate_collection_from_json env (payload ''Collections'' [plasma_record])
   = ([], Inl (if ''PLASMA'' \<in> set (StorageTemperature env) \<and> ''UNKNOWN'' \<in> set (Gender env)
               then AttributeError else KeyError))"
  by (simp add: populate_collection_from_json_def source_records_def payload_def
      plasma_record_def collection_from_record_def collection_fields_def dict_get_def
      member_get_def py_or_def upper_char_def)


end
